theory Spec2Isabelle
  imports Main
begin

section \<open>JavaScript values\<close>

text \<open>
  The scalar values that travel in descriptors and in plain request objects.
  \<open>truthy\<close> is JavaScript's conversion to a boolean, as used by \<open>if (x)\<close>,
  \<open>x ? a : b\<close> and \<open>x || y\<close>.
\<close>

datatype jsval = JUndefined | JNull | JBool bool | JNum int | JStr string

fun truthy :: "jsval \<Rightarrow> bool" where
  "truthy JUndefined = False"
| "truthy JNull = False"
| "truthy (JBool b) = b"
| "truthy (JNum n) = (n \<noteq> 0)"
| "truthy (JStr s) = (s \<noteq> [])"

text \<open>
  A plain object with string keys, in insertion order. \<open>obj_put\<close> is the assignment
  \<open>obj[k] = v\<close>: an existing key keeps its place and takes the new value, a new key is
  appended. \<open>obj_get\<close> is the property read \<open>obj[k]\<close>.
\<close>

type_synonym jsobject = "(string \<times> jsval) list"

fun obj_put :: "string \<Rightarrow> jsval \<Rightarrow> jsobject \<Rightarrow> jsobject" where
  "obj_put k v [] = [(k, v)]"
| "obj_put k v ((k', v') # kvs) =
     (if k = k' then (k, v) # kvs else (k', v') # obj_put k v kvs)"

fun obj_get :: "jsobject \<Rightarrow> string \<Rightarrow> jsval" where
  "obj_get [] k = JUndefined"
| "obj_get ((k', v') # kvs) k = (if k = k' then v' else obj_get kvs k)"

text \<open>
  An argument of a call where the source passes \<open>null\<close>, a number or a plain object
  (search parameters, timeouts). \<open>arg_truthy\<close> is its truth value.
\<close>

datatype jsarg = ArgNull | ArgNum nat | ArgObj jsobject

fun arg_truthy :: "jsarg \<Rightarrow> bool" where
  "arg_truthy ArgNull = False"
| "arg_truthy (ArgNum n) = (n \<noteq> 0)"
| "arg_truthy (ArgObj obj) = True"

text \<open>
  The value of a url variable: a string, the array of strings that
  \<open>getLinkRelationUrls\<close> returns, or \<open>undefined\<close> (the element \<open>[0]\<close> of an empty
  array). An array is always truthy, also when empty; \<open>url_toString\<close> is the string an
  array turns into under \<open>+\<close> (its elements joined by commas).
\<close>

datatype urlval = UUndefined | UStr string | UArr "string list"

fun url_truthy :: "urlval \<Rightarrow> bool" where
  "url_truthy UUndefined = False"
| "url_truthy (UStr s) = (s \<noteq> [])"
| "url_truthy (UArr us) = True"

fun join_comma :: "string list \<Rightarrow> string" where
  "join_comma [] = []"
| "join_comma [u] = u"
| "join_comma (u # v # us) = u @ '','' @ join_comma (v # us)"

fun url_toString :: "urlval \<Rightarrow> string" where
  "url_toString UUndefined = ''undefined''"
| "url_toString (UStr s) = s"
| "url_toString (UArr us) = join_comma us"

text \<open>\<open>first_url us\<close> is \<open>us[0]\<close>.\<close>

fun first_url :: "string list \<Rightarrow> urlval" where
  "first_url [] = UUndefined"
| "first_url (u # us) = UStr u"

section \<open>The Collection+JSON data model\<close>

text \<open>
  The decoded envelope: links, items with their descriptors and links, an optional
  template and an optional error message. The JavaScript property names \<open>value\<close>,
  \<open>href\<close>, \<open>data\<close> and \<open>links\<close> occur in several objects; the fields of an item
  are written \<open>item_href\<close>, \<open>item_data\<close>, \<open>item_links\<close>, a descriptor's value is
  \<open>val\<close> and the collection's own address is \<open>coll_href\<close>.
\<close>

record descriptor =
  name :: string
  val :: jsval

record link =
  rel :: string
  href :: string

record item =
  item_href :: string
  item_data :: "descriptor list"
  item_links :: "link list"

record collection =
  version :: string
  coll_href :: string
  links :: "link list"
  items :: "item list"
  template :: "descriptor list option"
  error_message :: "string option"

section \<open>Requests, responses and errors\<close>

datatype http_method = GET | POST | PUT | DELETE

datatype auth = Basic string string | Token string

text \<open>
  The body handed to a write request: nothing, a plain object
  \<open>{k: v, ...}\<close>, or the Collection+JSON template envelope
  \<open>{template: {data: [{name: .., value: ..}, ...]}}\<close>.
\<close>

datatype payload = NoBody | PlainData jsobject | TemplateData "descriptor list"

record http_request =
  req_method :: http_method
  req_url :: urlval
  req_params :: jsarg
  req_data :: payload
  req_file :: "(string \<times> string) option"
  req_auth :: "auth option"
  req_contentType :: string
  req_timeout :: jsarg

text \<open>
  The decoded body of a response, \<open>resp.data\<close>: a Collection+JSON document, the
  token document of the authentication service, or any other object.
  \<open>data_collection\<close> is \<open>resp.data.collection\<close> (\<open>None\<close> for \<open>undefined\<close>),
  \<open>data_token\<close> is \<open>resp.data.token\<close>.
\<close>

datatype respdata = CollectionDoc collection | TokenDoc string | OtherDoc jsobject

fun data_collection :: "respdata \<Rightarrow> collection option" where
  "data_collection (CollectionDoc c) = Some c"
| "data_collection (TokenDoc t) = None"
| "data_collection (OtherDoc obj) = None"

fun data_token :: "respdata \<Rightarrow> jsval" where
  "data_token (CollectionDoc c) = JUndefined"
| "data_token (TokenDoc t) = JStr t"
| "data_token (OtherDoc obj) = obj_get obj ''token''"

record response =
  status :: nat
  resp_data :: respdata

text \<open>
  The message of an exception is a string. \<open>Text s\<close> is the string \<open>s\<close>;
  \<open>TextNumber s n\<close> is the string that \<open>s + n\<close> builds from the string \<open>s\<close> and
  the number \<open>n\<close>, the number put into text by JavaScript's own conversion (plain
  decimal digits for the integers that ids are, a rounded or an exponent form for numbers
  beyond 2^53 and 10^21). The conversion belongs to the language, so the message keeps
  the number itself.

  The errors an operation can end with. \<open>RequestException\<close> is the class the clients
  import and throw, with its message and, when the transport raised it, the request and
  the response received. \<open>TypeError\<close> is JavaScript's own error for a property read
  on \<open>undefined\<close>. \<open>NotFoundError\<close>, \<open>ProtocolError\<close> and \<open>ConfigError\<close> are the
  further kinds of the specification's taxonomy.

  An operation's end is a value of \<open>error + 'a\<close>: \<open>Inr v\<close> is a promise resolved with
  \<open>v\<close>; \<open>Inl e\<close> is the exception \<open>e\<close>, a rejected promise or, where the source calls
  \<open>resolve(...)\<close> after its \<open>try\<close> block, the exception raised by the argument of
  \<open>resolve\<close>, which no handler of the operation receives.
\<close>

datatype message = Text string | TextNumber string int

datatype error =
    RequestException message "http_request option" "response option"
  | TypeError
  | NotFoundError
  | ProtocolError
  | ConfigError

fun is_RequestException :: "error \<Rightarrow> bool" where
  "is_RequestException (RequestException msg rq rs) = True"
| "is_RequestException e = False"

section \<open>Collection codec\<close>

text \<open>
  Modelled from the spec: the module \<open>cj\<close> (class \<open>Collection\<close>) is imported by
  both clients and is not among the sources. \<open>getLinkRelationUrls(container, rel)\<close>
  takes a collection or a single item and returns the urls of all its links whose
  relation equals \<open>rel\<close>, in source order, the empty sequence when there is none.
\<close>

datatype container = OfCollection collection | OfItem item

fun container_links :: "container \<Rightarrow> link list" where
  "container_links (OfCollection c) = links c"
| "container_links (OfItem it) = item_links it"

definition getLinkRelationUrls :: "container \<Rightarrow> string \<Rightarrow> string list" where
  "getLinkRelationUrls obj relationName =
     map href (filter (\<lambda>l. rel l = relationName) (container_links obj))"

text \<open>
  Modelled from the spec: \<open>getItemDescriptors(item)\<close> of the module \<open>cj\<close> flattens the
  item's descriptor sequence into a mapping from name to value; a later descriptor of
  the same name overwrites the earlier one.
\<close>

definition getItemDescriptors :: "item \<Rightarrow> jsobject" where
  "getItemDescriptors it = foldl (\<lambda>obj d. obj_put (name d) (val d) obj) [] (item_data it)"

text \<open>
  Modelled from the spec: \<open>makeTemplate(mapping)\<close> of the module \<open>cj\<close> turns a plain
  mapping into the descriptor sequence of a write request, in the mapping's iteration
  order; a value that is \<open>null\<close> or absent is left out.
\<close>

definition makeTemplate :: "jsobject \<Rightarrow> descriptor list" where
  "makeTemplate obj =
     map (\<lambda>(k, v). \<lparr>name = k, val = v\<rparr>)
       (filter (\<lambda>(k, v). v \<noteq> JNull \<and> v \<noteq> JUndefined) obj)"

section \<open>StoreClient.getDataFromCollection\<close>

text \<open>
  The result object: \<open>data\<close> is a list of descriptor mappings for a list collection and
  one descriptor mapping for an item; the two page flags are set for a list only
  (\<open>None\<close> is a property that was never assigned).
\<close>

datatype resultdata = DataList "jsobject list" | DataItem jsobject

record result =
  data :: resultdata
  hasNextPage :: "bool option"
  hasPreviousPage :: "bool option"

text \<open>
  \<open>coll\<close> is \<open>None\<close> when the caller passes an \<open>undefined\<close> \<open>resp.data.collection\<close>;
  reading \<open>coll.items\<close> then raises. With any type other than \<open>'list'\<close> the first
  item is read with no test of the length: on an empty sequence \<open>coll.items[0]\<close> is
  \<open>undefined\<close> and flattening its descriptors raises.
\<close>

definition getDataFromCollection :: "collection option \<Rightarrow> string \<Rightarrow> error + result" where
  "getDataFromCollection coll collection_type =
     (case coll of
        None \<Rightarrow> Inl TypeError
      | Some c \<Rightarrow>
          if collection_type = ''list'' then
            Inr \<lparr>data = DataList (map getItemDescriptors (items c)),
                 hasNextPage = Some (getLinkRelationUrls (OfCollection c) ''next'' \<noteq> []),
                 hasPreviousPage = Some (getLinkRelationUrls (OfCollection c) ''previous'' \<noteq> [])\<rparr>
          else
            (case items c of
               [] \<Rightarrow> Inl TypeError
             | it # rest \<Rightarrow>
                 Inr \<lparr>data = DataItem (getItemDescriptors it),
                      hasNextPage = None, hasPreviousPage = None\<rparr>))"

section \<open>Operations, their state and the network\<close>

text \<open>
  The network is the environment. It answers a request knowing the requests sent before
  it, so an answer may depend on what the earlier requests did to the server. The answer
  is a response, a timeout or a network fault.
\<close>

datatype outcome = Timeout | NetworkFault | Reply response

type_synonym net = "http_request list \<Rightarrow> http_request \<Rightarrow> outcome"

text \<open>
  An asynchronous operation runs on an object (\<open>self\<close>, the \<open>this\<close> of the source)
  and on the sequence of requests sent so far. It ends with an error or with a value and
  leaves behind the object, as the operation's assignments to \<open>this\<close> made it, and the
  extended sequence of requests. \<open>andThen\<close> is \<open>promise.then(f)\<close> and the \<open>yield\<close> of
  a task generator inside its \<open>try\<close> block: an error ends the chain. \<open>settle\<close>
  turns the end of a synchronous computation that may throw into the end of the chain.
\<close>

record 'o world =
  self :: 'o
  sent :: "http_request list"

type_synonym ('o, 'a) task = "'o world \<Rightarrow> (error + 'a) \<times> 'o world"

definition resolve :: "'a \<Rightarrow> ('o, 'a) task" where
  "resolve v w = (Inr v, w)"

definition reject :: "error \<Rightarrow> ('o, 'a) task" where
  "reject e w = (Inl e, w)"

definition settle :: "error + 'a \<Rightarrow> ('o, 'a) task" where
  "settle r w = (r, w)"

definition andThen :: "('o, 'a) task \<Rightarrow> ('a \<Rightarrow> ('o, 'b) task) \<Rightarrow> ('o, 'b) task" where
  "andThen m f w = (case m w of (Inl e, w') \<Rightarrow> (Inl e, w') | (Inr v, w') \<Rightarrow> f v w')"

definition get_self :: "('o, 'o) task" where
  "get_self w = (Inr (self w), w)"

definition update_self :: "('o \<Rightarrow> 'o) \<Rightarrow> ('o, unit) task" where
  "update_self f w = (Inr (), w\<lparr>self := f (self w)\<rparr>)"

text \<open>
  \<open>on_object ob m\<close> runs the method \<open>m\<close> on a new object \<open>ob\<close> (\<open>new C(...).m()\<close>)
  inside an operation of another object: the requests are sent on the same network, the
  caller's own state is not touched.
\<close>

definition on_object :: "'p \<Rightarrow> ('p, 'a) task \<Rightarrow> ('o, 'a) task" where
  "on_object ob m w =
     (case m \<lparr>self = ob, sent = sent w\<rparr> of (r, w') \<Rightarrow> (r, w\<lparr>sent := sent w'\<rparr>))"

section \<open>Transport\<close>

text \<open>
  Modelled from the spec: the module \<open>request\<close> (class \<open>Request\<close>) is imported by both
  clients and is not among the sources. A \<open>Request\<close> object is built from the
  credentials, the content type and the timeout; each verb sends one request and yields
  the response. Any timeout, network fault or response outside 2xx is reported as one
  \<open>RequestException\<close> carrying a message, the request and, if one was received, the
  response. The specification does not fix the wording of the message.
\<close>

record Request =
  auth_r :: "auth option"
  contentType_r :: string
  timeout_r :: jsarg

definition transport :: "net \<Rightarrow> http_request \<Rightarrow> ('o, response) task" where
  "transport nw rq w =
     (let w' = w\<lparr>sent := sent w @ [rq]\<rparr> in
      case nw (sent w) rq of
        Timeout \<Rightarrow> (Inl (RequestException (Text ''timeout'') (Some rq) None), w')
      | NetworkFault \<Rightarrow> (Inl (RequestException (Text ''network error'') (Some rq) None), w')
      | Reply resp \<Rightarrow>
          if 200 \<le> status resp \<and> status resp < 300 then (Inr resp, w')
          else (Inl (RequestException (Text ''request failed'') (Some rq) (Some resp)), w'))"

definition get_request :: "Request \<Rightarrow> urlval \<Rightarrow> jsarg \<Rightarrow> http_request" where
  "get_request req u searchParams =
     \<lparr>req_method = GET, req_url = u, req_params = searchParams,
      req_data = NoBody, req_file = None, req_auth = auth_r req,
      req_contentType = contentType_r req, req_timeout = timeout_r req\<rparr>"

definition post_request ::
  "Request \<Rightarrow> urlval \<Rightarrow> payload \<Rightarrow> (string \<times> string) option \<Rightarrow> http_request" where
  "post_request req u d fileObj =
     \<lparr>req_method = POST, req_url = u, req_params = ArgNull,
      req_data = d, req_file = fileObj, req_auth = auth_r req,
      req_contentType = contentType_r req, req_timeout = timeout_r req\<rparr>"

definition put_request :: "Request \<Rightarrow> urlval \<Rightarrow> payload \<Rightarrow> http_request" where
  "put_request req u d =
     \<lparr>req_method = PUT, req_url = u, req_params = ArgNull,
      req_data = d, req_file = None, req_auth = auth_r req,
      req_contentType = contentType_r req, req_timeout = timeout_r req\<rparr>"

definition delete_request :: "Request \<Rightarrow> urlval \<Rightarrow> http_request" where
  "delete_request req u =
     \<lparr>req_method = DELETE, req_url = u, req_params = ArgNull,
      req_data = NoBody, req_file = None, req_auth = auth_r req,
      req_contentType = contentType_r req, req_timeout = timeout_r req\<rparr>"

definition Request_get :: "Request \<Rightarrow> urlval \<Rightarrow> jsarg \<Rightarrow> net \<Rightarrow> ('o, response) task" where
  "Request_get req u searchParams nw = transport nw (get_request req u searchParams)"

definition Request_post ::
  "Request \<Rightarrow> urlval \<Rightarrow> payload \<Rightarrow> (string \<times> string) option \<Rightarrow> net \<Rightarrow> ('o, response) task" where
  "Request_post req u d fileObj nw = transport nw (post_request req u d fileObj)"

definition Request_put :: "Request \<Rightarrow> urlval \<Rightarrow> payload \<Rightarrow> net \<Rightarrow> ('o, response) task" where
  "Request_put req u d nw = transport nw (put_request req u d)"

definition Request_delete :: "Request \<Rightarrow> urlval \<Rightarrow> net \<Rightarrow> ('o, response) task" where
  "Request_delete req u nw = transport nw (delete_request req u)"

text \<open>
  What the network does with one request, as the hypotheses of the properties below say
  it: \<open>replies_collection nw h rq c\<close> when, after the requests \<open>h\<close>, the request
  \<open>rq\<close> is answered with a 2xx response whose body is the collection \<open>c\<close>;
  \<open>request_fails nw h rq\<close> when it runs into a timeout, a network fault or a response
  outside 2xx.
\<close>

definition is_2xx :: "response \<Rightarrow> bool" where
  "is_2xx resp = (200 \<le> status resp \<and> status resp < 300)"

definition replies_collection :: "net \<Rightarrow> http_request list \<Rightarrow> http_request \<Rightarrow> collection \<Rightarrow> bool" where
  "replies_collection nw h rq c =
     (case nw h rq of
        Reply resp \<Rightarrow> is_2xx resp \<and> data_collection (resp_data resp) = Some c
      | Timeout \<Rightarrow> False
      | NetworkFault \<Rightarrow> False)"

definition request_fails :: "net \<Rightarrow> http_request list \<Rightarrow> http_request \<Rightarrow> bool" where
  "request_fails nw h rq =
     (case nw h rq of
        Reply resp \<Rightarrow> \<not> is_2xx resp
      | Timeout \<Rightarrow> True
      | NetworkFault \<Rightarrow> True)"

section \<open>StoreClient\<close>

text \<open>
  The fields of a \<open>StoreClient\<close>; \<open>auth\<close>, \<open>timeout\<close>, \<open>contentType\<close> and
  \<open>pipelinesUrl\<close> carry the suffix \<open>_s\<close>. The constructor takes \<open>auth = null\<close> and
  \<open>timeout = 30000\<close> as defaults and has no check: it cannot throw.
\<close>

record StoreClient =
  storeUrl :: string
  storeQueryUrl :: string
  pipelinesUrl_s :: urlval
  pipelinesQueryUrl :: string
  auth_s :: "auth option"
  timeout_s :: jsarg
  contentType_s :: string

abbreviation cj_type :: string where
  "cj_type \<equiv> ''application/vnd.collection+json''"

definition StoreClient_constructor :: "string \<Rightarrow> auth option \<Rightarrow> jsarg \<Rightarrow> StoreClient" where
  "StoreClient_constructor storeUrl0 auth0 timeout0 =
     \<lparr>storeUrl = storeUrl0, storeQueryUrl = storeUrl0 @ ''search/'',
      pipelinesUrl_s = UStr [], pipelinesQueryUrl = [],
      auth_s = auth0, timeout_s = timeout0, contentType_s = cj_type\<rparr>"

definition StoreClient_request :: "StoreClient \<Rightarrow> Request" where
  "StoreClient_request this =
     \<lparr>auth_r = auth_s this, contentType_r = contentType_s this, timeout_r = timeout_s this\<rparr>"

text \<open>
  \<open>not_found id\<close> is the exception of the five places that throw
  \<open>new RequestException('Could not find resource with id: ' + id)\<close>.
\<close>

definition not_found :: "int \<Rightarrow> error" where
  "not_found ident =
     RequestException (TextNumber ''Could not find resource with id: '' ident) None None"

definition id_params :: "int \<Rightarrow> jsarg" where
  "id_params ident = ArgObj [(''id'', JNum ident)]"

text \<open>\<open>_fetchCollection(url, searchParams = null)\<close>: resolves to \<open>resp.data.collection\<close>.\<close>

definition StoreClient_fetchCollection ::
  "net \<Rightarrow> urlval \<Rightarrow> jsarg \<Rightarrow> (StoreClient, collection option) task" where
  "StoreClient_fetchCollection nw u searchParams =
     andThen get_self (\<lambda>this.
       andThen (Request_get (StoreClient_request this) u searchParams nw) (\<lambda>resp.
         resolve (data_collection (resp_data resp))))"

definition StoreClient_getListResourceData ::
  "net \<Rightarrow> urlval \<Rightarrow> jsarg \<Rightarrow> (StoreClient, result) task" where
  "StoreClient_getListResourceData nw resUrl searchParams =
     andThen (StoreClient_fetchCollection nw resUrl searchParams) (\<lambda>coll.
       settle (getDataFromCollection coll ''list''))"

definition StoreClient_getItemResourceData ::
  "net \<Rightarrow> urlval \<Rightarrow> int \<Rightarrow> (StoreClient, result) task" where
  "StoreClient_getItemResourceData nw resQueryUrl ident =
     andThen (StoreClient_fetchCollection nw resQueryUrl (id_params ident)) (\<lambda>coll.
       case coll of
         None \<Rightarrow> reject TypeError
       | Some c \<Rightarrow>
           if items c \<noteq> [] then settle (getDataFromCollection (Some c) ''item'')
           else reject (not_found ident))"

definition StoreClient_getPlugins :: "net \<Rightarrow> jsarg \<Rightarrow> (StoreClient, result) task" where
  "StoreClient_getPlugins nw searchParams =
     andThen get_self (\<lambda>this.
       StoreClient_getListResourceData nw
         (if arg_truthy searchParams then UStr (storeQueryUrl this) else UStr (storeUrl this))
         searchParams)"

definition StoreClient_getPlugin :: "net \<Rightarrow> int \<Rightarrow> (StoreClient, result) task" where
  "StoreClient_getPlugin nw ident =
     andThen get_self (\<lambda>this.
       StoreClient_getItemResourceData nw (UStr (storeQueryUrl this)) ident)"

text \<open>
  \<open>setPipelinesUrls\<close> stores the array of urls itself in \<open>pipelinesUrl\<close> and the
  string \<open>pipelinesUrl + 'search/'\<close> in \<open>pipelinesQueryUrl\<close>.
\<close>

definition StoreClient_setPipelinesUrls :: "net \<Rightarrow> (StoreClient, unit) task" where
  "StoreClient_setPipelinesUrls nw =
     andThen get_self (\<lambda>this.
       andThen (StoreClient_fetchCollection nw (UStr (storeUrl this)) ArgNull) (\<lambda>coll.
         case coll of
           None \<Rightarrow> reject TypeError
         | Some c \<Rightarrow>
             update_self (\<lambda>this.
               this\<lparr>pipelinesUrl_s := UArr (getLinkRelationUrls (OfCollection c) ''pipelines''),
                    pipelinesQueryUrl :=
                      url_toString (UArr (getLinkRelationUrls (OfCollection c) ''pipelines''))
                        @ ''search/''\<rparr>)))"

definition StoreClient_getPipelines :: "net \<Rightarrow> jsarg \<Rightarrow> (StoreClient, result) task" where
  "StoreClient_getPipelines nw searchParams =
     andThen get_self (\<lambda>this.
       if arg_truthy searchParams then
         (if pipelinesQueryUrl this \<noteq> [] then
            StoreClient_getListResourceData nw (UStr (pipelinesQueryUrl this)) searchParams
          else
            andThen (StoreClient_setPipelinesUrls nw) (\<lambda>u.
              andThen get_self (\<lambda>this.
                StoreClient_getListResourceData nw (UStr (pipelinesQueryUrl this)) searchParams)))
       else if url_truthy (pipelinesUrl_s this) then
         StoreClient_getListResourceData nw (pipelinesUrl_s this) ArgNull
       else
         andThen (StoreClient_setPipelinesUrls nw) (\<lambda>u.
           andThen get_self (\<lambda>this.
             StoreClient_getListResourceData nw (pipelinesUrl_s this) searchParams)))"

definition StoreClient_getPipeline :: "net \<Rightarrow> int \<Rightarrow> (StoreClient, result) task" where
  "StoreClient_getPipeline nw ident =
     andThen get_self (\<lambda>this.
       if pipelinesQueryUrl this \<noteq> [] then
         StoreClient_getItemResourceData nw (UStr (pipelinesQueryUrl this)) ident
       else
         andThen (StoreClient_setPipelinesUrls nw) (\<lambda>u.
           andThen get_self (\<lambda>this.
             StoreClient_getItemResourceData nw (UStr (pipelinesQueryUrl this)) ident)))"

text \<open>
  \<open>_getResourceRelatedListData(resQueryUrl, id, listRelName, params = null)\<close>. The
  result starts as the empty page and is replaced only if the item found has a link of
  the relation; the first such link is the one fetched. Everything happens inside the
  \<open>try\<close> block.
\<close>

definition empty_page :: result where
  "empty_page = \<lparr>data = DataList [], hasNextPage = Some False, hasPreviousPage = Some False\<rparr>"

definition StoreClient_getResourceRelatedListData ::
  "net \<Rightarrow> urlval \<Rightarrow> int \<Rightarrow> string \<Rightarrow> jsarg \<Rightarrow> (StoreClient, result) task" where
  "StoreClient_getResourceRelatedListData nw resQueryUrl ident listRelName params =
     andThen (StoreClient_fetchCollection nw resQueryUrl (id_params ident)) (\<lambda>coll.
       case coll of
         None \<Rightarrow> reject TypeError
       | Some c \<Rightarrow>
           (case items c of
              [] \<Rightarrow> reject (not_found ident)
            | it # rest \<Rightarrow>
                (case getLinkRelationUrls (OfItem it) listRelName of
                   [] \<Rightarrow> resolve empty_page
                 | l # ls \<Rightarrow>
                     andThen (StoreClient_fetchCollection nw (UStr l) params) (\<lambda>coll2.
                       settle (getDataFromCollection coll2 ''list'')))))"

definition StoreClient_getPluginParameters ::
  "net \<Rightarrow> int \<Rightarrow> jsarg \<Rightarrow> (StoreClient, result) task" where
  "StoreClient_getPluginParameters nw pluginId params =
     andThen get_self (\<lambda>this.
       StoreClient_getResourceRelatedListData nw (UStr (storeQueryUrl this)) pluginId
         ''parameters'' params)"

text \<open>
  The three pipeline relations: each uses \<open>pipelinesQueryUrl\<close> if it is set and
  discovers it first otherwise.
\<close>

definition StoreClient_getPipelineDefaultParameters ::
  "net \<Rightarrow> int \<Rightarrow> jsarg \<Rightarrow> (StoreClient, result) task" where
  "StoreClient_getPipelineDefaultParameters nw pipelineId params =
     andThen get_self (\<lambda>this.
       if pipelinesQueryUrl this \<noteq> [] then
         StoreClient_getResourceRelatedListData nw (UStr (pipelinesQueryUrl this)) pipelineId
           ''default_parameters'' params
       else
         andThen (StoreClient_setPipelinesUrls nw) (\<lambda>u.
           andThen get_self (\<lambda>this.
             StoreClient_getResourceRelatedListData nw (UStr (pipelinesQueryUrl this))
               pipelineId ''default_parameters'' params)))"

definition StoreClient_getPipelinePipings ::
  "net \<Rightarrow> int \<Rightarrow> jsarg \<Rightarrow> (StoreClient, result) task" where
  "StoreClient_getPipelinePipings nw pipelineId params =
     andThen get_self (\<lambda>this.
       if pipelinesQueryUrl this \<noteq> [] then
         StoreClient_getResourceRelatedListData nw (UStr (pipelinesQueryUrl this)) pipelineId
           ''plugin_pipings'' params
       else
         andThen (StoreClient_setPipelinesUrls nw) (\<lambda>u.
           andThen get_self (\<lambda>this.
             StoreClient_getResourceRelatedListData nw (UStr (pipelinesQueryUrl this))
               pipelineId ''plugin_pipings'' params)))"

definition StoreClient_getPipelinePlugins ::
  "net \<Rightarrow> int \<Rightarrow> jsarg \<Rightarrow> (StoreClient, result) task" where
  "StoreClient_getPipelinePlugins nw pipelineId params =
     andThen get_self (\<lambda>this.
       if pipelinesQueryUrl this \<noteq> [] then
         StoreClient_getResourceRelatedListData nw (UStr (pipelinesQueryUrl this)) pipelineId
           ''plugins'' params
       else
         andThen (StoreClient_setPipelinesUrls nw) (\<lambda>u.
           andThen get_self (\<lambda>this.
             StoreClient_getResourceRelatedListData nw (UStr (pipelinesQueryUrl this))
               pipelineId ''plugins'' params)))"


text \<open>
  \<open>descriptor_value it k\<close> is \<open>it.data.filter(d => d.name === k)[0].value\<close>: the
  value of the first descriptor named \<open>k\<close>; with no such descriptor \<open>[0]\<close> is
  \<open>undefined\<close> and reading \<open>.value\<close> raises.
\<close>

definition descriptor_value :: "item \<Rightarrow> string \<Rightarrow> error + jsval" where
  "descriptor_value it k =
     (case filter (\<lambda>d. name d = k) (item_data it) of
        [] \<Rightarrow> Inl TypeError
      | d # ds \<Rightarrow> Inr (val d))"

text \<open>
  \<open>write_body this data\<close> is the body of a \<open>put\<close>: \<open>{template: makeTemplate(data)}\<close>
  when the client's content type is Collection+JSON, the plain object otherwise.
\<close>

definition write_body :: "StoreClient \<Rightarrow> jsobject \<Rightarrow> payload" where
  "write_body this d =
     (if contentType_s this = cj_type then TemplateData (makeTemplate d) else PlainData d)"

text \<open>
  \<open>modifyPlugin(id, publicRepo = '', newOwner = '')\<close>. The lookup, the choice of
  \<open>public_repo\<close> and the \<open>put\<close> are inside the \<open>try\<close> block; the final
  \<open>resolve(getDataFromCollection(resp.data.collection, 'item'))\<close> is after it.
\<close>

definition modifyPlugin_data :: "item \<Rightarrow> string \<Rightarrow> string \<Rightarrow> error + jsobject" where
  "modifyPlugin_data it publicRepo newOwner =
     (case (if publicRepo \<noteq> [] then Inr (JStr publicRepo)
            else descriptor_value it ''public_repo'') of
        Inl e \<Rightarrow> Inl e
      | Inr pr \<Rightarrow>
          Inr (if newOwner \<noteq> [] then obj_put ''owner'' (JStr newOwner) (obj_put ''public_repo'' pr [])
               else obj_put ''public_repo'' pr []))"

definition StoreClient_modifyPlugin ::
  "net \<Rightarrow> int \<Rightarrow> string \<Rightarrow> string \<Rightarrow> (StoreClient, result) task" where
  "StoreClient_modifyPlugin nw ident publicRepo newOwner =
     andThen get_self (\<lambda>this.
       andThen (StoreClient_fetchCollection nw (UStr (storeQueryUrl this)) (id_params ident)) (\<lambda>coll.
         case coll of
           None \<Rightarrow> reject TypeError
         | Some c \<Rightarrow>
             (case items c of
                [] \<Rightarrow> reject (not_found ident)
              | it # rest \<Rightarrow>
                  andThen (settle (modifyPlugin_data it publicRepo newOwner)) (\<lambda>d.
                    andThen (Request_put (StoreClient_request this) (UStr (item_href it))
                               (write_body this d) nw) (\<lambda>resp.
                      settle (getDataFromCollection (data_collection (resp_data resp)) ''item''))))))"


text \<open>
  \<open>getUser\<close> and \<open>updateUser\<close> fetch the store's collection and follow its \<open>user\<close>
  relation: \<open>userUrls[0]\<close>, the first url. The final \<open>resolve(...)\<close> is after the
  \<open>try\<close> block.
\<close>

definition StoreClient_getUser :: "net \<Rightarrow> (StoreClient, result) task" where
  "StoreClient_getUser nw =
     andThen get_self (\<lambda>this.
       andThen (Request_get (StoreClient_request this) (UStr (storeUrl this)) ArgNull nw) (\<lambda>resp.
         case data_collection (resp_data resp) of
           None \<Rightarrow> reject TypeError
         | Some c \<Rightarrow>
             andThen (Request_get (StoreClient_request this)
                        (first_url (getLinkRelationUrls (OfCollection c) ''user'')) ArgNull nw)
               (\<lambda>resp2.
                 settle (getDataFromCollection (data_collection (resp_data resp2)) ''item''))))"

definition StoreClient_updateUser :: "net \<Rightarrow> jsval \<Rightarrow> jsval \<Rightarrow> (StoreClient, result) task" where
  "StoreClient_updateUser nw email password =
     andThen get_self (\<lambda>this.
       andThen (Request_get (StoreClient_request this) (UStr (storeUrl this)) ArgNull nw) (\<lambda>resp.
         case data_collection (resp_data resp) of
           None \<Rightarrow> reject TypeError
         | Some c \<Rightarrow>
             andThen (Request_put (StoreClient_request this)
                        (first_url (getLinkRelationUrls (OfCollection c) ''user''))
                        (TemplateData [\<lparr>name = ''email'', val = email\<rparr>,
                                       \<lparr>name = ''password'', val = password\<rparr>]) nw)
               (\<lambda>resp2.
                 settle (getDataFromCollection (data_collection (resp_data resp2)) ''item''))))"

text \<open>
  The two static operations build their own \<open>Request\<close> with no credentials.
  \<open>createUser\<close> uses the Collection+JSON content type and posts the template envelope
  with the descriptors \<open>username\<close>, \<open>password\<close>, \<open>email\<close>; \<open>getAuthToken\<close> uses
  \<open>application/json\<close>, posts the plain object \<open>{username, password}\<close> and resolves to
  \<open>resp.data.token\<close>.
\<close>

definition user_template :: "string \<Rightarrow> string \<Rightarrow> string \<Rightarrow> payload" where
  "user_template username password email =
     TemplateData [\<lparr>name = ''username'', val = JStr username\<rparr>,
                   \<lparr>name = ''password'', val = JStr password\<rparr>,
                   \<lparr>name = ''email'', val = JStr email\<rparr>]"

definition StoreClient_createUser ::
  "net \<Rightarrow> string \<Rightarrow> string \<Rightarrow> string \<Rightarrow> string \<Rightarrow> jsarg \<Rightarrow> ('o, result) task" where
  "StoreClient_createUser nw usersUrl username password email timeout0 =
     andThen (Request_post \<lparr>auth_r = None, contentType_r = cj_type, timeout_r = timeout0\<rparr>
                (UStr usersUrl) (user_template username password email) None nw) (\<lambda>resp.
       settle (getDataFromCollection (data_collection (resp_data resp)) ''item''))"

definition StoreClient_getAuthToken ::
  "net \<Rightarrow> string \<Rightarrow> string \<Rightarrow> string \<Rightarrow> jsarg \<Rightarrow> ('o, jsval) task" where
  "StoreClient_getAuthToken nw authUrl username password timeout0 =
     andThen (Request_post \<lparr>auth_r = None, contentType_r = ''application/json'',
                             timeout_r = timeout0\<rparr>
                (UStr authUrl)
                (PlainData [(''username'', JStr username), (''password'', JStr password)])
                None nw) (\<lambda>resp.
       resolve (data_token (resp_data resp)))"

section \<open>Resource model\<close>

text \<open>
  Modelled from the spec: the module \<open>resource\<close> (classes \<open>ListResource\<close> and
  \<open>ItemResource\<close>) and the catalogue modules built on it are imported by the
  \<open>Client\<close> and are not among the sources. A resource wraps a url, the credentials,
  the collection fetched last (\<open>None\<close> until the first fetch) and, for a list, the
  search parameters used last.
\<close>

record resource =
  res_url :: urlval
  res_auth :: "auth option"
  res_collection :: "collection option"
  res_searchParams :: jsarg

definition new_resource :: "urlval \<Rightarrow> auth option \<Rightarrow> resource" where
  "new_resource u a =
     \<lparr>res_url = u, res_auth = a, res_collection = None, res_searchParams = ArgNull\<rparr>"

text \<open>
  Modelled from the spec: \<open>decode\<close> of the collection codec fails with
  \<open>ProtocolError\<close> when the body has no \<open>collection\<close> wrapper.
\<close>

definition decode :: "respdata \<Rightarrow> error + collection" where
  "decode d = (case data_collection d of None \<Rightarrow> Inl ProtocolError | Some c \<Rightarrow> Inr c)"

text \<open>
  Modelled from the spec: the operations of the resource module.
  \<open>get(searchParams, timeout)\<close> of a list and \<open>get(timeout)\<close> of an item send a GET
  to the resource's own url; \<open>post(data, fileBlob, timeout)\<close> of a list sends the
  template made from \<open>data\<close>, or the raw \<open>data\<close> beside the file when one is given;
  \<open>put(data, timeout)\<close> of an item sends the template; \<open>delete(timeout)\<close> sends a
  DELETE and yields nothing. A transport failure is the transport's
  \<open>RequestException\<close>; only on success is the resource's collection replaced, and the
  operation resolves to the resource itself.
\<close>

definition store_collection :: "jsarg \<Rightarrow> response \<Rightarrow> (resource, resource) task" where
  "store_collection searchParams resp =
     (case decode (resp_data resp) of
        Inl e \<Rightarrow> reject e
      | Inr c \<Rightarrow>
          andThen (update_self (\<lambda>this.
                     this\<lparr>res_collection := Some c, res_searchParams := searchParams\<rparr>))
            (\<lambda>u. get_self))"

definition resource_request :: "resource \<Rightarrow> jsarg \<Rightarrow> Request" where
  "resource_request this timeout0 =
     \<lparr>auth_r = res_auth this, contentType_r = cj_type, timeout_r = timeout0\<rparr>"

definition ListResource_get :: "net \<Rightarrow> jsarg \<Rightarrow> jsarg \<Rightarrow> (resource, resource) task" where
  "ListResource_get nw searchParams timeout0 =
     andThen get_self (\<lambda>this.
       andThen (Request_get (resource_request this timeout0) (res_url this) searchParams nw)
         (store_collection searchParams))"

definition ItemResource_get :: "net \<Rightarrow> jsarg \<Rightarrow> (resource, resource) task" where
  "ItemResource_get nw timeout0 =
     andThen get_self (\<lambda>this.
       andThen (Request_get (resource_request this timeout0) (res_url this) ArgNull nw)
         (store_collection (res_searchParams this)))"

definition ListResource_post ::
  "net \<Rightarrow> jsobject \<Rightarrow> (string \<times> string) option \<Rightarrow> jsarg \<Rightarrow> (resource, resource) task" where
  "ListResource_post nw d fileObj timeout0 =
     andThen get_self (\<lambda>this.
       andThen (Request_post (resource_request this timeout0) (res_url this)
                  (if fileObj = None then TemplateData (makeTemplate d) else PlainData d)
                  fileObj nw)
         (store_collection (res_searchParams this)))"

definition ItemResource_put :: "net \<Rightarrow> jsobject \<Rightarrow> jsarg \<Rightarrow> (resource, resource) task" where
  "ItemResource_put nw d timeout0 =
     andThen get_self (\<lambda>this.
       andThen (Request_put (resource_request this timeout0) (res_url this)
                  (TemplateData (makeTemplate d)) nw)
         (store_collection (res_searchParams this)))"

definition ItemResource_delete :: "net \<Rightarrow> jsarg \<Rightarrow> (resource, unit) task" where
  "ItemResource_delete nw timeout0 =
     andThen get_self (\<lambda>this.
       andThen (Request_delete (resource_request this timeout0) (res_url this) nw)
         (\<lambda>resp. resolve ()))"

text \<open>
  Modelled from the spec: the page flags of a list are computed from the \<open>next\<close> and
  \<open>previous\<close> links of its collection.
\<close>

definition res_hasNextPage :: "resource \<Rightarrow> bool" where
  "res_hasNextPage r =
     (case res_collection r of None \<Rightarrow> False
      | Some c \<Rightarrow> getLinkRelationUrls (OfCollection c) ''next'' \<noteq> [])"

definition res_hasPreviousPage :: "resource \<Rightarrow> bool" where
  "res_hasPreviousPage r =
     (case res_collection r of None \<Rightarrow> False
      | Some c \<Rightarrow> getLinkRelationUrls (OfCollection c) ''previous'' \<noteq> [])"

text \<open>
  Modelled from the spec: \<open>getItems()\<close> gives one item resource per item of the list's
  collection, each with the list's credentials, its own \<open>href\<close> and a collection that
  holds this one item. \<open>getItem(id)\<close> keeps the items whose field \<open>id\<close> is the number
  given and fails with \<open>NotFoundError\<close> when none is left.
\<close>

definition ListResource_getItems :: "resource \<Rightarrow> resource list" where
  "ListResource_getItems this =
     (case res_collection this of
        None \<Rightarrow> []
      | Some c \<Rightarrow>
          map (\<lambda>it. \<lparr>res_url = UStr (item_href it), res_auth = res_auth this,
                     res_collection = Some (c\<lparr>items := [it]\<rparr>),
                     res_searchParams = ArgNull\<rparr>) (items c))"

definition resource_id_is :: "int \<Rightarrow> resource \<Rightarrow> bool" where
  "resource_id_is ident r =
     (case res_collection r of
        None \<Rightarrow> False
      | Some c \<Rightarrow> (case items c of [] \<Rightarrow> False
                   | it # rest \<Rightarrow> obj_get (getItemDescriptors it) ''id'' = JNum ident))"

definition ListResource_getItem :: "resource \<Rightarrow> int \<Rightarrow> error + resource" where
  "ListResource_getItem this ident =
     (case filter (resource_id_is ident) (ListResource_getItems this) of
        [] \<Rightarrow> Inl NotFoundError
      | r # rs \<Rightarrow> Inr r)"

text \<open>\<open>first_item rs\<close> is \<open>rs[0]\<close> of \<open>getItems()\<close>: \<open>None\<close> is \<open>undefined\<close>.\<close>

fun first_item :: "resource list \<Rightarrow> resource option" where
  "first_item [] = None"
| "first_item (r # rs) = Some r"

section \<open>Client\<close>

text \<open>
  The fields of a \<open>Client\<close>. The constructor throws a \<open>RequestException\<close> when no
  authentication object is given; the urls of the high level resources start as empty
  strings, \<open>feedsUrl\<close> as the service's url.
\<close>

record Client =
  url :: string
  auth :: "auth option"
  feedsUrl :: urlval
  filesUrl :: urlval
  pluginsUrl :: urlval
  pluginInstancesUrl :: urlval
  pipelinesUrl :: urlval
  pipelineInstancesUrl :: urlval
  tagsUrl :: urlval
  uploadedFilesUrl :: urlval
  userUrl :: urlval

definition Client_constructor :: "string \<Rightarrow> auth option \<Rightarrow> error + Client" where
  "Client_constructor url0 auth0 =
     (case auth0 of
        None \<Rightarrow> Inl (RequestException (Text ''Authentication object is required'') None None)
      | Some a \<Rightarrow>
          Inr \<lparr>url = url0, auth = Some a, feedsUrl = UStr url0, filesUrl = UStr [],
               pluginsUrl = UStr [], pluginInstancesUrl = UStr [], pipelinesUrl = UStr [],
               pipelineInstancesUrl = UStr [], tagsUrl = UStr [], uploadedFilesUrl = UStr [],
               userUrl = UStr []\<rparr>)"

text \<open>
  \<open>url_or a b\<close> is \<open>a || b\<close>. \<open>set_discovered coll\<close> is the eight assignments of
  \<open>getFeeds\<close>: each url keeps its value when it is truthy and takes the array of urls
  of its relation otherwise.
\<close>

definition url_or :: "urlval \<Rightarrow> urlval \<Rightarrow> urlval" where
  "url_or a b = (if url_truthy a then a else b)"

definition set_discovered :: "collection \<Rightarrow> Client \<Rightarrow> Client" where
  "set_discovered coll this =
     this\<lparr>filesUrl := url_or (filesUrl this) (UArr (getLinkRelationUrls (OfCollection coll) ''files'')),
          pluginsUrl := url_or (pluginsUrl this) (UArr (getLinkRelationUrls (OfCollection coll) ''plugins'')),
          pluginInstancesUrl := url_or (pluginInstancesUrl this)
             (UArr (getLinkRelationUrls (OfCollection coll) ''plugin_instances'')),
          pipelinesUrl := url_or (pipelinesUrl this) (UArr (getLinkRelationUrls (OfCollection coll) ''pipelines'')),
          pipelineInstancesUrl := url_or (pipelineInstancesUrl this)
             (UArr (getLinkRelationUrls (OfCollection coll) ''pipeline_instances'')),
          tagsUrl := url_or (tagsUrl this) (UArr (getLinkRelationUrls (OfCollection coll) ''tags'')),
          uploadedFilesUrl := url_or (uploadedFilesUrl this)
             (UArr (getLinkRelationUrls (OfCollection coll) ''uploadedfiles'')),
          userUrl := url_or (userUrl this) (UArr (getLinkRelationUrls (OfCollection coll) ''user''))\<rparr>"

definition Client_getFeeds :: "net \<Rightarrow> jsarg \<Rightarrow> jsarg \<Rightarrow> (Client, resource) task" where
  "Client_getFeeds nw searchParams timeout0 =
     andThen get_self (\<lambda>this.
       andThen (on_object (new_resource (feedsUrl this) (auth this))
                  (ListResource_get nw searchParams timeout0)) (\<lambda>feedList.
         case res_collection feedList of
           None \<Rightarrow> reject TypeError
         | Some coll \<Rightarrow>
             andThen (update_self (set_discovered coll)) (\<lambda>u. resolve feedList)))"

text \<open>
  \<open>setUrls(timeout = 30000)\<close> is \<open>this.getFeeds(timeout)\<close>: its argument takes the
  place of \<open>searchParams\<close>, and \<open>getFeeds\<close> runs with its own default timeout.
\<close>

definition Client_setUrls :: "net \<Rightarrow> jsarg \<Rightarrow> (Client, resource) task" where
  "Client_setUrls nw timeout0 = Client_getFeeds nw timeout0 (ArgNum 30000)"

text \<open>
  The classes that \<open>_fetchRes\<close> is given: seven list resources and the item resource
  \<open>User\<close>. \<open>ResClass_get\<close> is the call \<open>res.get(...)\<close> with the arguments bound by
  position to \<open>get(searchParams = null, timeout = 30000)\<close> of a list and to
  \<open>get(timeout = 30000)\<close> of an item.
\<close>

datatype ResClass =
    AllFeedFileList | PluginList | AllPluginInstanceList | PipelineList
  | AllPipelineInstanceList | TagList | UploadedFileList | User

fun is_list_class :: "ResClass \<Rightarrow> bool" where
  "is_list_class User = False"
| "is_list_class c = True"

fun arg_at :: "jsarg list \<Rightarrow> nat \<Rightarrow> jsarg \<Rightarrow> jsarg" where
  "arg_at [] n dflt = dflt"
| "arg_at (a # as) 0 dflt = a"
| "arg_at (a # as) (Suc n) dflt = arg_at as n dflt"

definition ResClass_get :: "net \<Rightarrow> ResClass \<Rightarrow> jsarg list \<Rightarrow> (resource, resource) task" where
  "ResClass_get nw cls args =
     (if is_list_class cls
      then ListResource_get nw (arg_at args 0 ArgNull) (arg_at args 1 (ArgNum 30000))
      else ItemResource_get nw (arg_at args 0 (ArgNum 30000)))"

text \<open>
  \<open>_fetchRes(resUrl, ResClass, searchParams = null, timeout = 30000)\<close>. \<open>getRes\<close>
  builds the resource from the parameter \<open>resUrl\<close>, the value the caller read before
  the call, also when it runs after \<open>setUrls\<close>.
\<close>

definition Client_getRes ::
  "net \<Rightarrow> urlval \<Rightarrow> ResClass \<Rightarrow> jsarg \<Rightarrow> jsarg \<Rightarrow> (Client, resource) task" where
  "Client_getRes nw resUrl cls searchParams timeout0 =
     andThen get_self (\<lambda>this.
       on_object (new_resource resUrl (auth this))
         (if arg_truthy searchParams then ResClass_get nw cls [searchParams, timeout0]
          else ResClass_get nw cls [timeout0]))"

definition Client_fetchRes ::
  "net \<Rightarrow> urlval \<Rightarrow> ResClass \<Rightarrow> jsarg \<Rightarrow> jsarg \<Rightarrow> (Client, resource) task" where
  "Client_fetchRes nw resUrl cls searchParams timeout0 =
     (if url_truthy resUrl then Client_getRes nw resUrl cls searchParams timeout0
      else andThen (Client_setUrls nw (ArgNum 30000)) (\<lambda>u.
             Client_getRes nw resUrl cls searchParams timeout0))"

definition Client_getFiles :: "net \<Rightarrow> jsarg \<Rightarrow> jsarg \<Rightarrow> (Client, resource) task" where
  "Client_getFiles nw searchParams timeout0 =
     andThen get_self (\<lambda>this.
       Client_fetchRes nw (filesUrl this) AllFeedFileList searchParams timeout0)"

definition Client_getPlugins :: "net \<Rightarrow> jsarg \<Rightarrow> jsarg \<Rightarrow> (Client, resource) task" where
  "Client_getPlugins nw searchParams timeout0 =
     andThen get_self (\<lambda>this.
       Client_fetchRes nw (pluginsUrl this) PluginList searchParams timeout0)"

definition Client_getPluginInstances :: "net \<Rightarrow> jsarg \<Rightarrow> jsarg \<Rightarrow> (Client, resource) task" where
  "Client_getPluginInstances nw searchParams timeout0 =
     andThen get_self (\<lambda>this.
       Client_fetchRes nw (pluginInstancesUrl this) AllPluginInstanceList searchParams timeout0)"

definition Client_getPipelines :: "net \<Rightarrow> jsarg \<Rightarrow> jsarg \<Rightarrow> (Client, resource) task" where
  "Client_getPipelines nw searchParams timeout0 =
     andThen get_self (\<lambda>this.
       Client_fetchRes nw (pipelinesUrl this) PipelineList searchParams timeout0)"

definition Client_getPipelineInstances :: "net \<Rightarrow> jsarg \<Rightarrow> jsarg \<Rightarrow> (Client, resource) task" where
  "Client_getPipelineInstances nw searchParams timeout0 =
     andThen get_self (\<lambda>this.
       Client_fetchRes nw (pipelineInstancesUrl this) AllPipelineInstanceList searchParams timeout0)"

definition Client_getTags :: "net \<Rightarrow> jsarg \<Rightarrow> jsarg \<Rightarrow> (Client, resource) task" where
  "Client_getTags nw searchParams timeout0 =
     andThen get_self (\<lambda>this.
       Client_fetchRes nw (tagsUrl this) TagList searchParams timeout0)"

definition Client_getUploadedFiles :: "net \<Rightarrow> jsarg \<Rightarrow> jsarg \<Rightarrow> (Client, resource) task" where
  "Client_getUploadedFiles nw searchParams timeout0 =
     andThen get_self (\<lambda>this.
       Client_fetchRes nw (uploadedFilesUrl this) UploadedFileList searchParams timeout0)"

definition Client_getUser :: "net \<Rightarrow> jsarg \<Rightarrow> (Client, resource) task" where
  "Client_getUser nw timeout0 =
     andThen get_self (\<lambda>this.
       Client_fetchRes nw (userUrl this) User ArgNull timeout0)"

text \<open>
  The lookups by id: \<open>this.getXs({id: id}, timeout).then(listRes => listRes.getItem(id))\<close>.
\<close>

definition Client_getFeed :: "net \<Rightarrow> int \<Rightarrow> jsarg \<Rightarrow> (Client, resource) task" where
  "Client_getFeed nw ident timeout0 =
     andThen (Client_getFeeds nw (id_params ident) timeout0) (\<lambda>listRes.
       settle (ListResource_getItem listRes ident))"

definition Client_getFile :: "net \<Rightarrow> int \<Rightarrow> jsarg \<Rightarrow> (Client, resource) task" where
  "Client_getFile nw ident timeout0 =
     andThen (Client_getFiles nw (id_params ident) timeout0) (\<lambda>listRes.
       settle (ListResource_getItem listRes ident))"

definition Client_getPlugin :: "net \<Rightarrow> int \<Rightarrow> jsarg \<Rightarrow> (Client, resource) task" where
  "Client_getPlugin nw ident timeout0 =
     andThen (Client_getPlugins nw (id_params ident) timeout0) (\<lambda>listRes.
       settle (ListResource_getItem listRes ident))"

definition Client_getPluginInstance :: "net \<Rightarrow> int \<Rightarrow> jsarg \<Rightarrow> (Client, resource) task" where
  "Client_getPluginInstance nw ident timeout0 =
     andThen (Client_getPluginInstances nw (id_params ident) timeout0) (\<lambda>listRes.
       settle (ListResource_getItem listRes ident))"

definition Client_getPipeline :: "net \<Rightarrow> int \<Rightarrow> jsarg \<Rightarrow> (Client, resource) task" where
  "Client_getPipeline nw ident timeout0 =
     andThen (Client_getPipelines nw (id_params ident) timeout0) (\<lambda>listRes.
       settle (ListResource_getItem listRes ident))"

definition Client_getPipelineInstance :: "net \<Rightarrow> int \<Rightarrow> jsarg \<Rightarrow> (Client, resource) task" where
  "Client_getPipelineInstance nw ident timeout0 =
     andThen (Client_getPipelineInstances nw (id_params ident) timeout0) (\<lambda>listRes.
       settle (ListResource_getItem listRes ident))"

definition Client_getTag :: "net \<Rightarrow> int \<Rightarrow> jsarg \<Rightarrow> (Client, resource) task" where
  "Client_getTag nw ident timeout0 =
     andThen (Client_getTags nw (id_params ident) timeout0) (\<lambda>listRes.
       settle (ListResource_getItem listRes ident))"

definition Client_getUploadedFile :: "net \<Rightarrow> int \<Rightarrow> jsarg \<Rightarrow> (Client, resource) task" where
  "Client_getUploadedFile nw ident timeout0 =
     andThen (Client_getUploadedFiles nw (id_params ident) timeout0) (\<lambda>listRes.
       settle (ListResource_getItem listRes ident))"

text \<open>
  \<open>createPluginInstance(pluginId, data, timeout)\<close> follows the relation
  \<open>instances\<close> of the plugin's item, \<open>plg.collection.items[0]\<close>: the new list is
  built on \<open>instancesUrl[0]\<close>, and \<open>post(data, timeout)\<close> is sent there. The list
  classes of the catalogue declare \<open>post(data, timeout)\<close>, as the type declarations
  of \<open>TagList\<close> show, so no file goes with the data. The operation resolves to
  \<open>getItems()[0]\<close> of the answer.
\<close>

definition Client_createPluginInstance ::
  "net \<Rightarrow> int \<Rightarrow> jsobject \<Rightarrow> jsarg \<Rightarrow> (Client, resource option) task" where
  "Client_createPluginInstance nw pluginId d timeout0 =
     andThen (Client_getPlugin nw pluginId timeout0) (\<lambda>plg.
       case res_collection plg of
         None \<Rightarrow> reject TypeError
       | Some c \<Rightarrow>
           (case items c of
              [] \<Rightarrow> reject TypeError
            | it # rest \<Rightarrow>
                andThen get_self (\<lambda>this.
                  andThen (on_object
                             (new_resource (first_url (getLinkRelationUrls (OfItem it) ''instances''))
                                (auth this))
                             (ListResource_post nw d None timeout0)) (\<lambda>plgInstList.
                    resolve (first_item (ListResource_getItems plgInstList))))))"

text \<open>
  \<open>createPipelineInstance(pipelineId, data, timeout)\<close> does the same from the
  pipeline found: the relation \<open>instances\<close> of \<open>pipeline.collection.items[0]\<close>, the
  list built on \<open>instancesUrl[0]\<close>, \<open>post(data, timeout)\<close>, and \<open>getItems()[0]\<close> of
  the answer.
\<close>

definition Client_createPipelineInstance ::
  "net \<Rightarrow> int \<Rightarrow> jsobject \<Rightarrow> jsarg \<Rightarrow> (Client, resource option) task" where
  "Client_createPipelineInstance nw pipelineId d timeout0 =
     andThen (Client_getPipeline nw pipelineId timeout0) (\<lambda>pipeline.
       case res_collection pipeline of
         None \<Rightarrow> reject TypeError
       | Some c \<Rightarrow>
           (case items c of
              [] \<Rightarrow> reject TypeError
            | it # rest \<Rightarrow>
                andThen get_self (\<lambda>this.
                  andThen (on_object
                             (new_resource (first_url (getLinkRelationUrls (OfItem it) ''instances''))
                                (auth this))
                             (ListResource_post nw d None timeout0)) (\<lambda>pipInstList.
                    resolve (first_item (ListResource_getItems pipInstList))))))"

text \<open>
  The two static operations. \<open>createUser\<close> posts the same template envelope as the
  store client's and builds the \<open>User\<close> from the first item of the answer;
  \<open>getAuthToken\<close> posts the plain object \<open>{username, password}\<close> with the content
  type \<open>application/json\<close>.
\<close>

definition Client_createUser ::
  "net \<Rightarrow> string \<Rightarrow> string \<Rightarrow> string \<Rightarrow> string \<Rightarrow> jsarg \<Rightarrow> ('o, resource) task" where
  "Client_createUser nw usersUrl username password email timeout0 =
     andThen (Request_post \<lparr>auth_r = None, contentType_r = cj_type, timeout_r = timeout0\<rparr>
                (UStr usersUrl) (user_template username password email) None nw) (\<lambda>resp.
       case data_collection (resp_data resp) of
         None \<Rightarrow> reject TypeError
       | Some coll \<Rightarrow>
           (case items coll of
              [] \<Rightarrow> reject TypeError
            | it # rest \<Rightarrow>
                resolve \<lparr>res_url = UStr (item_href it),
                         res_auth = Some (Basic username password),
                         res_collection = Some coll, res_searchParams = ArgNull\<rparr>))"

definition Client_getAuthToken ::
  "net \<Rightarrow> string \<Rightarrow> string \<Rightarrow> string \<Rightarrow> jsarg \<Rightarrow> ('o, jsval) task" where
  "Client_getAuthToken nw authUrl username password timeout0 =
     andThen (Request_post \<lparr>auth_r = None, contentType_r = ''application/json'',
                             timeout_r = timeout0\<rparr>
                (UStr authUrl)
                (PlainData [(''username'', JStr username), (''password'', JStr password)])
                None nw) (\<lambda>resp.
       resolve (data_token (resp_data resp)))"

text \<open>
  \<open>start ob\<close> is the world in which an operation on the object \<open>ob\<close> begins with no
  request sent yet; \<open>outcome_of\<close>, \<open>object_after\<close> and \<open>requests_of\<close> read the end of
  an operation.
\<close>

definition start :: "'o \<Rightarrow> 'o world" where
  "start ob = \<lparr>self = ob, sent = []\<rparr>"

definition outcome_of :: "(error + 'a) \<times> 'o world \<Rightarrow> error + 'a" where
  "outcome_of r = fst r"

definition object_after :: "(error + 'a) \<times> 'o world \<Rightarrow> 'o" where
  "object_after r = self (snd r)"

definition requests_of :: "(error + 'a) \<times> 'o world \<Rightarrow> http_request list" where
  "requests_of r = sent (snd r)"

section \<open>Notions used to state the properties\<close>

text \<open>
  \<open>list_get_request\<close> is the request that \<open>get\<close> of a list resource, built by the
  client on the url \<open>u\<close>, sends; \<open>fetched r c sp\<close> is the resource \<open>r\<close> after a
  successful fetch of the collection \<open>c\<close>.
\<close>

definition list_get_request :: "Client \<Rightarrow> urlval \<Rightarrow> jsarg \<Rightarrow> jsarg \<Rightarrow> http_request" where
  "list_get_request this u searchParams timeout0 =
     get_request (resource_request (new_resource u (auth this)) timeout0) u searchParams"

definition fetched :: "resource \<Rightarrow> collection \<Rightarrow> jsarg \<Rightarrow> resource" where
  "fetched r c searchParams = r\<lparr>res_collection := Some c, res_searchParams := searchParams\<rparr>"

text \<open>
  Concrete data for the examples: a collection with given links and items, the answer
  \<open>200\<close> carrying a collection, a network that gives its answers in a fixed order
  (and a fault once they are used up), a store client and a client as their constructors
  build them, and the same two after discovery.
\<close>

definition example_collection :: "link list \<Rightarrow> item list \<Rightarrow> collection" where
  "example_collection ls its =
     \<lparr>version = ''1.0'', coll_href = ''http://localhost:8010/api/v1/'', links = ls, items = its,
      template = None, error_message = None\<rparr>"

definition ok :: "collection \<Rightarrow> outcome" where
  "ok c = Reply \<lparr>status = 200, resp_data = CollectionDoc c\<rparr>"

definition scripted :: "outcome list \<Rightarrow> net" where
  "scripted answers h rq = (if length h < length answers then answers ! length h else NetworkFault)"

definition store0 :: StoreClient where
  "store0 = StoreClient_constructor ''http://localhost:8010/api/v1/'' None (ArgNum 30000)"

definition client0 :: Client where
  "client0 =
     \<lparr>url = ''http://localhost:8000/api/v1/'', auth = Some (Basic ''cube'' ''cube1234''),
      feedsUrl = UStr ''http://localhost:8000/api/v1/'', filesUrl = UStr [],
      pluginsUrl = UStr [], pluginInstancesUrl = UStr [], pipelinesUrl = UStr [],
      pipelineInstancesUrl = UStr [], tagsUrl = UStr [], uploadedFilesUrl = UStr [],
      userUrl = UStr []\<rparr>"

definition store1 :: StoreClient where
  "store1 = store0\<lparr>pipelinesUrl_s := UArr [''http://localhost:8010/api/v1/pipelines/''],
                    pipelinesQueryUrl := ''http://localhost:8010/api/v1/pipelines/search/''\<rparr>"

definition client1 :: Client where
  "client1 =
     client0\<lparr>filesUrl := UArr [''http://localhost:8000/api/v1/files/''],
             pluginsUrl := UArr [''http://localhost:8000/api/v1/plugins/''],
             pluginInstancesUrl := UArr [''http://localhost:8000/api/v1/plugins/instances/''],
             pipelinesUrl := UArr [''http://localhost:8000/api/v1/pipelines/''],
             pipelineInstancesUrl := UArr [''http://localhost:8000/api/v1/pipelines/instances/''],
             tagsUrl := UArr [''http://localhost:8000/api/v1/tags/''],
             uploadedFilesUrl := UArr [''http://localhost:8000/api/v1/uploadedfiles/''],
             userUrl := UArr [''http://localhost:8000/api/v1/users/1/'']\<rparr>"

text \<open>
  An item of a plugin list that carries no link at all.
\<close>

definition item_without_links :: item where
  "item_without_links =
     \<lparr>item_href = ''http://localhost:8010/api/v1/1/'',
      item_data = [\<lparr>name = ''id'', val = JNum 1\<rparr>, \<lparr>name = ''name'', val = JStr ''simplefsapp''\<rparr>],
      item_links = []\<rparr>"

text \<open>
  An item of a plugin list whose \<open>public_repo\<close> is \<open>null\<close>.
\<close>

definition null_repo_item :: item where
  "null_repo_item =
     \<lparr>item_href = ''http://localhost:8010/api/v1/1/'',
      item_data = [\<lparr>name = ''id'', val = JNum 1\<rparr>, \<lparr>name = ''public_repo'', val = JNull\<rparr>],
      item_links = []\<rparr>"

text \<open>
  Data with a relation given twice: a store collection with two \<open>user\<close> links, and a
  plugin item with two \<open>parameters\<close> and two \<open>instances\<close> links.
\<close>

definition two_user_links :: "link list" where
  "two_user_links =
     [\<lparr>rel = ''user'', href = ''http://localhost:8010/api/v1/users/1/''\<rparr>,
      \<lparr>rel = ''user'', href = ''http://localhost:8010/api/v1/users/2/''\<rparr>]"

definition plugin_item :: item where
  "plugin_item =
     \<lparr>item_href = ''http://localhost:8000/api/v1/plugins/1/'',
      item_data = [\<lparr>name = ''id'', val = JNum 1\<rparr>,
                   \<lparr>name = ''public_repo'', val = JStr ''https://github.com/FNNDSC/pl-simplefsapp''\<rparr>],
      item_links = [\<lparr>rel = ''parameters'', href = ''http://localhost:8000/api/v1/plugins/1/parameters/''\<rparr>,
                    \<lparr>rel = ''instances'', href = ''http://localhost:8000/api/v1/plugins/1/instances/''\<rparr>,
                    \<lparr>rel = ''parameters'', href = ''http://localhost:8000/api/v1/plugins/1/parameters2/''\<rparr>,
                    \<lparr>rel = ''instances'', href = ''http://localhost:8000/api/v1/plugins/1/instances2/''\<rparr>]\<rparr>"

text \<open>
  An item of a pipeline list with two links of the relation \<open>instances\<close>, and the
  links of a store collection that names the pipelines twice.
\<close>

definition pipeline_item :: item where
  "pipeline_item =
     \<lparr>item_href = ''http://localhost:8000/api/v1/pipelines/1/'',
      item_data = [\<lparr>name = ''id'', val = JNum 1\<rparr>, \<lparr>name = ''name'', val = JStr ''Pipeline1''\<rparr>],
      item_links = [\<lparr>rel = ''instances'', href = ''http://localhost:8000/api/v1/pipelines/1/instances/''\<rparr>,
                    \<lparr>rel = ''instances'', href = ''http://localhost:8000/api/v1/pipelines/1/instances2/''\<rparr>]\<rparr>"

definition two_pipelines_links :: "link list" where
  "two_pipelines_links =
     [\<lparr>rel = ''pipelines'', href = ''http://localhost:8010/api/v1/pipelines/''\<rparr>,
      \<lparr>rel = ''pipelines'', href = ''http://localhost:8010/api/v1/pipelines2/''\<rparr>]"

text \<open>
  \<open>is_request_failure r\<close>: the operation ended with a \<open>RequestException\<close>.
\<close>

definition is_request_failure :: "error + 'a \<Rightarrow> bool" where
  "is_request_failure r = (case r of Inl e \<Rightarrow> is_RequestException e | Inr v \<Rightarrow> False)"

text \<open>
  A resource that holds a collection from an earlier fetch, and the answer \<open>404\<close>.
\<close>

definition ready_resource :: resource where
  "ready_resource =
     fetched (new_resource (UStr ''http://localhost:8000/api/v1/1/comments/'')
                (Some (Basic ''cube'' ''cube1234'')))
       (example_collection [\<lparr>rel = ''next'', href = ''http://localhost:8000/api/v1/1/comments/?offset=10''\<rparr>]
          [plugin_item])
       ArgNull"

definition not_found_reply :: outcome where
  "not_found_reply = Reply \<lparr>status = 404, resp_data = OtherDoc [(''detail'', JStr ''Not found.'')]\<rparr>"

text \<open>
  \<open>discovery_request this\<close> is the feed-list fetch of \<open>this.setUrls()\<close>: the GET of
  \<open>feedsUrl\<close> whose search parameters are the number \<open>30000\<close> that \<open>setUrls\<close> hands
  to \<open>getFeeds\<close>. \<open>urls_kept this this'\<close> says that every url of \<open>this\<close> that is
  set has the same value in \<open>this'\<close>.
\<close>

definition discovery_request :: "Client \<Rightarrow> http_request" where
  "discovery_request this =
     list_get_request this (feedsUrl this) (ArgNum 30000) (ArgNum 30000)"

definition urls_kept :: "Client \<Rightarrow> Client \<Rightarrow> bool" where
  "urls_kept this this' =
     ((url_truthy (filesUrl this) \<longrightarrow> filesUrl this' = filesUrl this)
      \<and> (url_truthy (pluginsUrl this) \<longrightarrow> pluginsUrl this' = pluginsUrl this)
      \<and> (url_truthy (pluginInstancesUrl this) \<longrightarrow> pluginInstancesUrl this' = pluginInstancesUrl this)
      \<and> (url_truthy (pipelinesUrl this) \<longrightarrow> pipelinesUrl this' = pipelinesUrl this)
      \<and> (url_truthy (pipelineInstancesUrl this) \<longrightarrow>
            pipelineInstancesUrl this' = pipelineInstancesUrl this)
      \<and> (url_truthy (tagsUrl this) \<longrightarrow> tagsUrl this' = tagsUrl this)
      \<and> (url_truthy (uploadedFilesUrl this) \<longrightarrow> uploadedFilesUrl this' = uploadedFilesUrl this)
      \<and> (url_truthy (userUrl this) \<longrightarrow> userUrl this' = userUrl this))"

text \<open>
  A feed list whose links name four of the high level resources.
\<close>

definition feeds_collection :: collection where
  "feeds_collection =
     example_collection
       [\<lparr>rel = ''files'', href = ''http://localhost:8000/api/v1/files/''\<rparr>,
        \<lparr>rel = ''plugins'', href = ''http://localhost:8000/api/v1/plugins/''\<rparr>,
        \<lparr>rel = ''tags'', href = ''http://localhost:8000/api/v1/tags/''\<rparr>,
        \<lparr>rel = ''user'', href = ''http://localhost:8000/api/v1/users/1/''\<rparr>]
       []"

text \<open>
  The eight getters of the client that go through \<open>_fetchRes\<close>, as one family: the url
  field each reads, the relation that fills it, and the call itself (\<open>getUser\<close> takes
  no search parameters).
\<close>

datatype getter =
    GetFiles | GetPlugins | GetPluginInstances | GetPipelines | GetPipelineInstances
  | GetTags | GetUploadedFiles | GetUser

fun getter_url :: "getter \<Rightarrow> Client \<Rightarrow> urlval" where
  "getter_url GetFiles = filesUrl"
| "getter_url GetPlugins = pluginsUrl"
| "getter_url GetPluginInstances = pluginInstancesUrl"
| "getter_url GetPipelines = pipelinesUrl"
| "getter_url GetPipelineInstances = pipelineInstancesUrl"
| "getter_url GetTags = tagsUrl"
| "getter_url GetUploadedFiles = uploadedFilesUrl"
| "getter_url GetUser = userUrl"

fun getter_rel :: "getter \<Rightarrow> string" where
  "getter_rel GetFiles = ''files''"
| "getter_rel GetPlugins = ''plugins''"
| "getter_rel GetPluginInstances = ''plugin_instances''"
| "getter_rel GetPipelines = ''pipelines''"
| "getter_rel GetPipelineInstances = ''pipeline_instances''"
| "getter_rel GetTags = ''tags''"
| "getter_rel GetUploadedFiles = ''uploadedfiles''"
| "getter_rel GetUser = ''user''"

fun run_getter :: "net \<Rightarrow> getter \<Rightarrow> jsarg \<Rightarrow> jsarg \<Rightarrow> (Client, resource) task" where
  "run_getter nw GetFiles sp t = Client_getFiles nw sp t"
| "run_getter nw GetPlugins sp t = Client_getPlugins nw sp t"
| "run_getter nw GetPluginInstances sp t = Client_getPluginInstances nw sp t"
| "run_getter nw GetPipelines sp t = Client_getPipelines nw sp t"
| "run_getter nw GetPipelineInstances sp t = Client_getPipelineInstances nw sp t"
| "run_getter nw GetTags sp t = Client_getTags nw sp t"
| "run_getter nw GetUploadedFiles sp t = Client_getUploadedFiles nw sp t"
| "run_getter nw GetUser sp t = Client_getUser nw t"

text \<open>
  A client whose \<open>filesUrl\<close> alone is set, to a url of its own.
\<close>

definition client_half :: Client where
  "client_half = client0\<lparr>filesUrl := UArr [''http://localhost:8000/api/v1/myfiles/'']\<rparr>"

text \<open>
  \<open>discovered_store c this\<close> is the store client after \<open>setPipelinesUrls\<close> has read
  the collection \<open>c\<close>.
\<close>

definition discovered_store :: "collection \<Rightarrow> StoreClient \<Rightarrow> StoreClient" where
  "discovered_store c this =
     this\<lparr>pipelinesUrl_s := UArr (getLinkRelationUrls (OfCollection c) ''pipelines''),
          pipelinesQueryUrl :=
            join_comma (getLinkRelationUrls (OfCollection c) ''pipelines'') @ ''search/''\<rparr>"

text \<open>
  A store collection that names the pipelines.
\<close>

definition pipelines_link :: "link list" where
  "pipelines_link = [\<lparr>rel = ''pipelines'', href = ''http://localhost:8010/api/v1/pipelines/''\<rparr>]"

section \<open>Auxiliary facts\<close>

lemma Client_constructor_example:
  "Client_constructor ''http://localhost:8000/api/v1/'' (Some (Basic ''cube'' ''cube1234'')) =
     Inr client0"
  by (simp add: Client_constructor_def client0_def)

lemma getLinkRelationUrls_empty_iff:
  "(getLinkRelationUrls obj r = []) = (r \<notin> rel ` set (container_links obj))"
  by (auto simp: getLinkRelationUrls_def filter_empty_conv)

lemma transport_reply:
  "nw (sent w) rq = Reply resp \<Longrightarrow> is_2xx resp \<Longrightarrow>
   transport nw rq w = (Inr resp, w\<lparr>sent := sent w @ [rq]\<rparr>)"
  by (simp add: transport_def is_2xx_def)

lemma transport_collection:
  assumes "replies_collection nw (sent w) rq c"
  shows "\<exists>resp. transport nw rq w = (Inr resp, w\<lparr>sent := sent w @ [rq]\<rparr>)
           \<and> data_collection (resp_data resp) = Some c"
  using assms
  by (auto simp: replies_collection_def transport_def is_2xx_def split: outcome.splits)

lemma transport_fails:
  assumes "request_fails nw (sent w) rq"
  shows "\<exists>msg rs. transport nw rq w =
           (Inl (RequestException msg (Some rq) rs), w\<lparr>sent := sent w @ [rq]\<rparr>)"
  using assms
  by (auto simp: request_fails_def transport_def is_2xx_def split: outcome.splits)

lemma fetchCollection_reply:
  assumes "replies_collection nw (sent w) (get_request (StoreClient_request (self w)) u sp) c"
  shows "StoreClient_fetchCollection nw u sp w =
           (Inr (Some c), w\<lparr>sent := sent w @ [get_request (StoreClient_request (self w)) u sp]\<rparr>)"
  using transport_collection [OF assms]
  by (auto simp: StoreClient_fetchCollection_def andThen_def get_self_def Request_get_def resolve_def)

lemma getItemResourceData_empty:
  assumes "replies_collection nw (sent w) (get_request (StoreClient_request (self w)) u (id_params ident)) c"
    and "items c = []"
  shows "StoreClient_getItemResourceData nw u ident w =
           (Inl (not_found ident),
            w\<lparr>sent := sent w @ [get_request (StoreClient_request (self w)) u (id_params ident)]\<rparr>)"
  using fetchCollection_reply [OF assms(1)] assms(2)
  by (simp add: StoreClient_getItemResourceData_def andThen_def reject_def)

lemma ListResource_get_reply:
  assumes "replies_collection nw (sent w)
             (get_request (resource_request (self w) t) (res_url (self w)) sp) c"
  shows "ListResource_get nw sp t w =
           (Inr (fetched (self w) c sp),
            \<lparr>self = fetched (self w) c sp,
             sent = sent w @ [get_request (resource_request (self w) t) (res_url (self w)) sp]\<rparr>)"
  using transport_collection [OF assms]
  by (auto simp: ListResource_get_def andThen_def get_self_def Request_get_def resolve_def
      store_collection_def decode_def update_self_def fetched_def)

lemma Client_getFeeds_reply:
  assumes "replies_collection nw (sent w) (list_get_request (self w) (feedsUrl (self w)) sp t) c"
  shows "Client_getFeeds nw sp t w =
           (Inr (fetched (new_resource (feedsUrl (self w)) (auth (self w))) c sp),
            w\<lparr>self := set_discovered c (self w),
              sent := sent w @ [list_get_request (self w) (feedsUrl (self w)) sp t]\<rparr>)"
proof -
  let ?r = "new_resource (feedsUrl (self w)) (auth (self w))"
  have "replies_collection nw (sent \<lparr>self = ?r, sent = sent w\<rparr>)
          (get_request (resource_request (self \<lparr>self = ?r, sent = sent w\<rparr>) t)
             (res_url (self \<lparr>self = ?r, sent = sent w\<rparr>)) sp) c"
    using assms by (simp add: list_get_request_def new_resource_def)
  from ListResource_get_reply [OF this]
  show ?thesis
    by (simp add: Client_getFeeds_def andThen_def get_self_def on_object_def update_self_def
        resolve_def fetched_def list_get_request_def new_resource_def)
qed

lemma Client_getRes_list_reply:
  assumes "is_list_class cls" and "arg_truthy sp"
    and "replies_collection nw (sent w) (list_get_request (self w) u sp t) c"
  shows "Client_getRes nw u cls sp t w =
           (Inr (fetched (new_resource u (auth (self w))) c sp),
            w\<lparr>sent := sent w @ [list_get_request (self w) u sp t]\<rparr>)"
proof -
  let ?r = "new_resource u (auth (self w))"
  have "replies_collection nw (sent \<lparr>self = ?r, sent = sent w\<rparr>)
          (get_request (resource_request (self \<lparr>self = ?r, sent = sent w\<rparr>) t)
             (res_url (self \<lparr>self = ?r, sent = sent w\<rparr>)) sp) c"
    using assms(3) by (simp add: list_get_request_def new_resource_def)
  from ListResource_get_reply [OF this] assms(1,2)
  show ?thesis
    by (simp add: Client_getRes_def andThen_def get_self_def on_object_def ResClass_get_def
        fetched_def list_get_request_def new_resource_def)
qed

lemma getItem_no_items:
  "items c = [] \<Longrightarrow> ListResource_getItem (fetched r c sp) ident = Inl NotFoundError"
  by (simp add: ListResource_getItem_def ListResource_getItems_def fetched_def)

lemma getItemResourceData_no_match:
  assumes "items c = []"
    and "replies_collection nw (sent w) (get_request (StoreClient_request (self w)) u (id_params ident)) c"
  shows "outcome_of (StoreClient_getItemResourceData nw u ident w) = Inl (not_found ident)"
  using getItemResourceData_empty [OF assms(2,1)] by (simp add: outcome_of_def)

lemma Client_lookup_no_match:
  assumes "items c = []" and "url_truthy u" and "is_list_class cls"
    and "replies_collection nw (sent w) (list_get_request (self w) u (id_params ident) t) c"
  shows "outcome_of (andThen (Client_fetchRes nw u cls (id_params ident) t)
            (\<lambda>listRes. settle (ListResource_getItem listRes ident)) w) = Inl NotFoundError"
  using Client_getRes_list_reply [OF assms(3) _ assms(4)] assms(1,2)
  by (simp add: Client_fetchRes_def andThen_def settle_def outcome_of_def id_params_def
      getItem_no_items)

lemma transport_sent: "sent (snd (transport nw rq w)) = sent w @ [rq]"
  by (simp add: transport_def Let_def split: outcome.splits)

lemma transport_self: "self (snd (transport nw rq w)) = self w"
  by (simp add: transport_def Let_def split: outcome.splits)

lemma andThen_transport_sent:
  assumes "\<And>resp w'. sent (snd (f resp w')) = sent w'"
  shows "requests_of (andThen (transport nw rq) f w) = sent w @ [rq]"
  using assms
  by (auto simp: andThen_def requests_of_def transport_def Let_def split: outcome.splits)

lemma fetchCollection_sent:
  "sent (snd (StoreClient_fetchCollection nw u sp w)) =
     sent w @ [get_request (StoreClient_request (self w)) u sp]"
  by (simp add: StoreClient_fetchCollection_def andThen_def get_self_def Request_get_def
      resolve_def transport_def Let_def split: outcome.splits)

lemma relatedList_no_link:
  assumes "replies_collection nw (sent w)
             (get_request (StoreClient_request (self w)) u (id_params ident)) c"
    and "items c = it # rest"
    and "getLinkRelationUrls (OfItem it) listRelName = []"
  shows "StoreClient_getResourceRelatedListData nw u ident listRelName params w =
           (Inr empty_page,
            w\<lparr>sent := sent w @ [get_request (StoreClient_request (self w)) u (id_params ident)]\<rparr>)"
  using fetchCollection_reply [OF assms(1)] assms(2,3)
  by (simp add: StoreClient_getResourceRelatedListData_def andThen_def resolve_def)

lemma andThen_Inr: "m w = (Inr v, w') \<Longrightarrow> andThen m f w = f v w'"
  by (simp add: andThen_def)

lemma andThen_Inl: "m w = (Inl e, w') \<Longrightarrow> andThen m f w = (Inl e, w')"
  by (simp add: andThen_def)

lemma andThen_get_self: "andThen get_self f w = f (self w) w"
  by (simp add: andThen_def get_self_def)

lemma andThen_settle_world: "snd (andThen m (\<lambda>v. settle (g v)) w) = snd (m w)"
  by (simp add: andThen_def settle_def split: prod.splits sum.splits)

lemma andThen_settle_outcome:
  "m w = (Inr v, w') \<Longrightarrow> outcome_of (andThen m (\<lambda>v. settle (g v)) w) = g v"
  by (simp add: andThen_def settle_def outcome_of_def)

lemma Request_sent:
  "sent (snd (Request_get req u sp nw w)) = sent w @ [get_request req u sp]"
  "sent (snd (Request_put req u d nw w)) = sent w @ [put_request req u d]"
  "sent (snd (Request_post req u d f nw w)) = sent w @ [post_request req u d f]"
  "sent (snd (Request_delete req u nw w)) = sent w @ [delete_request req u]"
  by (simp_all add: Request_get_def Request_put_def Request_post_def Request_delete_def
      transport_sent)

lemma then_Request_get:
  assumes "replies_collection nw (sent w) (get_request req u sp) c"
  shows "\<exists>resp. data_collection (resp_data resp) = Some c \<and>
           (\<forall>f. andThen (Request_get req u sp nw) f w =
                  f resp (w\<lparr>sent := sent w @ [get_request req u sp]\<rparr>))"
  using transport_collection [OF assms] by (auto simp: Request_get_def andThen_def)

lemma then_Request_put:
  assumes "replies_collection nw (sent w) (put_request req u d) c"
  shows "\<exists>resp. data_collection (resp_data resp) = Some c \<and>
           (\<forall>f. andThen (Request_put req u d nw) f w =
                  f resp (w\<lparr>sent := sent w @ [put_request req u d]\<rparr>))"
  using transport_collection [OF assms] by (auto simp: Request_put_def andThen_def)

lemma then_Request_post:
  assumes "replies_collection nw (sent w) (post_request req u d fo) c"
  shows "\<exists>resp. data_collection (resp_data resp) = Some c \<and>
           (\<forall>f. andThen (Request_post req u d fo nw) f w =
                  f resp (w\<lparr>sent := sent w @ [post_request req u d fo]\<rparr>))"
  using transport_collection [OF assms] by (auto simp: Request_post_def andThen_def)

lemma then_fetchCollection:
  assumes "replies_collection nw (sent w) (get_request (StoreClient_request (self w)) u sp) c"
  shows "andThen (StoreClient_fetchCollection nw u sp) f w =
           f (Some c) (w\<lparr>sent := sent w @ [get_request (StoreClient_request (self w)) u sp]\<rparr>)"
  using fetchCollection_reply [OF assms] by (simp add: andThen_def)

lemma getUser_requests:
  assumes "replies_collection nw (sent w)
             (get_request (StoreClient_request (self w)) (UStr (storeUrl (self w))) ArgNull) c"
  shows "requests_of (StoreClient_getUser nw w) =
           sent w @ [get_request (StoreClient_request (self w)) (UStr (storeUrl (self w))) ArgNull,
                     get_request (StoreClient_request (self w))
                       (first_url (getLinkRelationUrls (OfCollection c) ''user'')) ArgNull]"
proof -
  from then_Request_get [OF assms] obtain resp where
    r: "data_collection (resp_data resp) = Some c"
      "\<And>f :: response \<Rightarrow> (StoreClient, result) task.
         andThen (Request_get (StoreClient_request (self w)) (UStr (storeUrl (self w))) ArgNull nw) f w
          = f resp (w\<lparr>sent := sent w @ [get_request (StoreClient_request (self w)) (UStr (storeUrl (self w))) ArgNull]\<rparr>)"
    by blast
  show ?thesis
    by (simp add: StoreClient_getUser_def andThen_get_self r
        requests_of_def andThen_settle_world Request_sent)
qed

lemma updateUser_requests:
  assumes "replies_collection nw (sent w)
             (get_request (StoreClient_request (self w)) (UStr (storeUrl (self w))) ArgNull) c"
  shows "requests_of (StoreClient_updateUser nw email password w) =
           sent w @ [get_request (StoreClient_request (self w)) (UStr (storeUrl (self w))) ArgNull,
                     put_request (StoreClient_request (self w))
                       (first_url (getLinkRelationUrls (OfCollection c) ''user''))
                       (TemplateData [\<lparr>name = ''email'', val = email\<rparr>,
                                      \<lparr>name = ''password'', val = password\<rparr>])]"
proof -
  from then_Request_get [OF assms] obtain resp where
    r: "data_collection (resp_data resp) = Some c"
      "\<And>f :: response \<Rightarrow> (StoreClient, result) task.
         andThen (Request_get (StoreClient_request (self w)) (UStr (storeUrl (self w))) ArgNull nw) f w
          = f resp (w\<lparr>sent := sent w @ [get_request (StoreClient_request (self w)) (UStr (storeUrl (self w))) ArgNull]\<rparr>)"
    by blast
  show ?thesis
    by (simp add: StoreClient_updateUser_def andThen_get_self r
        requests_of_def andThen_settle_world Request_sent)
qed

lemma relatedList_requests:
  assumes "replies_collection nw (sent w)
             (get_request (StoreClient_request (self w)) u (id_params ident)) c"
    and "items c = it # rest"
    and "getLinkRelationUrls (OfItem it) listRelName = u1 # us"
  shows "requests_of (StoreClient_getResourceRelatedListData nw u ident listRelName params w) =
           sent w @ [get_request (StoreClient_request (self w)) u (id_params ident),
                     get_request (StoreClient_request (self w)) (UStr u1) params]"
  by (simp add: StoreClient_getResourceRelatedListData_def
      then_fetchCollection [OF assms(1)] assms(2,3)
      requests_of_def andThen_settle_world fetchCollection_sent)

lemma andThen_resolve_world: "snd (andThen m (\<lambda>v. resolve (g v)) w) = snd (m w)"
  by (simp add: andThen_def resolve_def split: prod.splits sum.splits)

lemma on_object_sent:
  "sent (snd (on_object ob m w)) = sent (snd (m \<lparr>self = ob, sent = sent w\<rparr>))"
  by (simp add: on_object_def split: prod.splits)

lemma on_object_self: "self (snd (on_object ob m w)) = self w"
  by (simp add: on_object_def split: prod.splits)

lemma store_collection_sent: "sent (snd (store_collection sp resp w)) = sent w"
  by (simp add: store_collection_def reject_def andThen_def update_self_def get_self_def
      split: sum.splits)

lemma andThen_sent:
  assumes "\<And>v w'. sent (snd (f v w')) = sent w'"
  shows "sent (snd (andThen m f w)) = sent (snd (m w))"
  using assms by (simp add: andThen_def split: prod.splits sum.splits)

lemma ListResource_post_sent:
  "sent (snd (ListResource_post nw d fo t w)) =
     sent w @ [post_request (resource_request (self w) t) (res_url (self w))
                 (if fo = None then TemplateData (makeTemplate d) else PlainData d) fo]"
  by (simp add: ListResource_post_def andThen_get_self andThen_sent store_collection_sent
      Request_sent)

lemma Client_getPlugin_found:
  assumes "url_truthy (pluginsUrl (self w))"
    and "replies_collection nw (sent w)
           (list_get_request (self w) (pluginsUrl (self w)) (id_params pid) t) c"
    and "ListResource_getItem
           (fetched (new_resource (pluginsUrl (self w)) (auth (self w))) c (id_params pid)) pid
         = Inr plg"
  shows "Client_getPlugin nw pid t w =
           (Inr plg,
            w\<lparr>sent := sent w @ [list_get_request (self w) (pluginsUrl (self w)) (id_params pid) t]\<rparr>)"
  using Client_getRes_list_reply [OF _ _ assms(2), of PluginList] assms(1,3)
  by (simp add: Client_getPlugin_def Client_getPlugins_def Client_fetchRes_def andThen_def
      get_self_def settle_def id_params_def)

lemma Client_getPipeline_found:
  assumes "url_truthy (pipelinesUrl (self w))"
    and "replies_collection nw (sent w)
           (list_get_request (self w) (pipelinesUrl (self w)) (id_params pid) t) c"
    and "ListResource_getItem
           (fetched (new_resource (pipelinesUrl (self w)) (auth (self w))) c (id_params pid)) pid
         = Inr pip"
  shows "Client_getPipeline nw pid t w =
           (Inr pip,
            w\<lparr>sent := sent w @ [list_get_request (self w) (pipelinesUrl (self w)) (id_params pid) t]\<rparr>)"
  using Client_getRes_list_reply [OF _ _ assms(2), of PipelineList] assms(1,3)
  by (simp add: Client_getPipeline_def Client_getPipelines_def Client_fetchRes_def andThen_def
      get_self_def settle_def id_params_def)

lemma createPluginInstance_requests:
  assumes "Client_getPlugin nw pid t w = (Inr plg, w')"
    and "res_collection plg = Some pc" and "items pc = it # rest"
  shows "requests_of (Client_createPluginInstance nw pid d t w) =
           sent w' @ [post_request
                       (resource_request
                          (new_resource (first_url (getLinkRelationUrls (OfItem it) ''instances''))
                             (auth (self w'))) t)
                       (first_url (getLinkRelationUrls (OfItem it) ''instances''))
                       (TemplateData (makeTemplate d)) None]"
  by (simp add: Client_createPluginInstance_def
      andThen_Inr [where m = "Client_getPlugin nw pid t", OF assms(1)]
      assms(2,3) andThen_get_self requests_of_def andThen_resolve_world on_object_sent
      ListResource_post_sent new_resource_def)

lemma createPipelineInstance_requests:
  assumes "Client_getPipeline nw pid t w = (Inr pip, w')"
    and "res_collection pip = Some pc" and "items pc = it # rest"
  shows "requests_of (Client_createPipelineInstance nw pid d t w) =
           sent w' @ [post_request
                       (resource_request
                          (new_resource (first_url (getLinkRelationUrls (OfItem it) ''instances''))
                             (auth (self w'))) t)
                       (first_url (getLinkRelationUrls (OfItem it) ''instances''))
                       (TemplateData (makeTemplate d)) None]"
  by (simp add: Client_createPipelineInstance_def
      andThen_Inr [where m = "Client_getPipeline nw pid t", OF assms(1)]
      assms(2,3) andThen_get_self requests_of_def andThen_resolve_world on_object_sent
      ListResource_post_sent new_resource_def)


lemma modifyPlugin_requests:
  assumes "replies_collection nw (sent w)
             (get_request (StoreClient_request (self w)) (UStr (storeQueryUrl (self w)))
                (id_params ident)) c"
    and "items c = it # rest"
    and "modifyPlugin_data it publicRepo newOwner = Inr d"
  shows "requests_of (StoreClient_modifyPlugin nw ident publicRepo newOwner w) =
           sent w @ [get_request (StoreClient_request (self w)) (UStr (storeQueryUrl (self w)))
                       (id_params ident),
                     put_request (StoreClient_request (self w)) (UStr (item_href it))
                       (write_body (self w) d)]"
  by (simp add: StoreClient_modifyPlugin_def andThen_get_self
      then_fetchCollection [OF assms(1)] assms(2,3)
      andThen_Inr [where m = "settle (Inr d)" and v = d, OF settle_def]
      requests_of_def andThen_settle_world Request_sent)

lemma modifyPlugin_data_chosen:
  assumes "publicRepo = [] \<longrightarrow>
             filter (\<lambda>d. name d = ''public_repo'') (item_data it) = dsc # others"
  shows "modifyPlugin_data it publicRepo newOwner =
           Inr ((''public_repo'', if publicRepo = [] then val dsc else JStr publicRepo) #
                (if newOwner = [] then [] else [(''owner'', JStr newOwner)]))"
  using assms by (simp add: modifyPlugin_data_def descriptor_value_def)






lemma store_collection_cases:
  "(\<exists>e. store_collection sp resp w = (Inl e, w)) \<or>
   (\<exists>r. store_collection sp resp w = (Inr r, w\<lparr>self := r\<rparr>))"
  by (simp add: store_collection_def reject_def andThen_def update_self_def get_self_def
      split: sum.splits)

lemma then_store_collection_failure:
  assumes "request_fails nw (sent w) rq"
  shows "is_request_failure (outcome_of (andThen (transport nw rq) (store_collection sp) w))
         \<and> object_after (andThen (transport nw rq) (store_collection sp) w) = self w"
  using transport_fails [OF assms]
  by (auto simp: andThen_def is_request_failure_def outcome_of_def object_after_def)

lemma then_store_collection_timeout:
  assumes "nw (sent w) rq = Timeout"
  shows "outcome_of (andThen (transport nw rq) (store_collection sp) w) =
           Inl (RequestException (Text ''timeout'') (Some rq) None)"
  using assms by (simp add: andThen_def transport_def outcome_of_def)

lemma then_store_collection_error:
  assumes "outcome_of (andThen (transport nw rq) (store_collection sp) w) = Inl e"
  shows "object_after (andThen (transport nw rq) (store_collection sp) w) = self w"
proof (cases "transport nw rq w")
  case (Pair r w')
  have w': "self w' = self w"
    using transport_self [of nw rq w] Pair by simp
  show ?thesis
  proof (cases r)
    case (Inl e')
    with Pair w' show ?thesis
      by (simp add: andThen_def object_after_def)
  next
    case (Inr resp)
    with Pair assms store_collection_cases [of sp resp w'] w' show ?thesis
      by (auto simp: andThen_def object_after_def outcome_of_def)
  qed
qed

lemma urls_kept_refl: "urls_kept this this"
  by (simp add: urls_kept_def)

lemma urls_kept_set_discovered: "urls_kept this (set_discovered c this)"
  by (simp add: urls_kept_def set_discovered_def url_or_def)

lemma ListResource_get_sent:
  "sent (snd (ListResource_get nw sp t w)) =
     sent w @ [get_request (resource_request (self w) t) (res_url (self w)) sp]"
  by (simp add: ListResource_get_def andThen_get_self andThen_sent store_collection_sent
      Request_sent)

lemma ItemResource_get_sent:
  "sent (snd (ItemResource_get nw t w)) =
     sent w @ [get_request (resource_request (self w) t) (res_url (self w)) ArgNull]"
  by (simp add: ItemResource_get_def andThen_get_self andThen_sent store_collection_sent
      Request_sent)

lemma Client_getRes_self: "self (snd (Client_getRes nw u cls sp t w)) = self w"
  by (simp add: Client_getRes_def andThen_get_self on_object_self)

lemma Client_getRes_sent:
  "\<exists>rq. sent (snd (Client_getRes nw u cls sp t w)) = sent w @ [rq]
        \<and> req_url rq = u \<and> req_method rq = GET"
  by (simp add: Client_getRes_def andThen_get_self on_object_sent ResClass_get_def
      ListResource_get_sent ItemResource_get_sent new_resource_def get_request_def)

lemma Client_getFeeds_sent:
  "sent (snd (Client_getFeeds nw sp t w)) =
     sent w @ [list_get_request (self w) (feedsUrl (self w)) sp t]"
proof -
  have "sent (snd (f v w')) = sent w'"
    if "f = (\<lambda>feedList. case res_collection feedList of
           None \<Rightarrow> reject TypeError
         | Some coll \<Rightarrow> andThen (update_self (set_discovered coll)) (\<lambda>u. resolve feedList))"
    for f :: "resource \<Rightarrow> (Client, resource) task" and v w'
    using that
    by (simp add: reject_def andThen_def update_self_def resolve_def split: option.splits)
  then show ?thesis
    by (simp add: Client_getFeeds_def andThen_get_self andThen_sent on_object_sent
        ListResource_get_sent list_get_request_def new_resource_def)
qed

lemma Client_getFeeds_self:
  "(\<exists>c. self (snd (Client_getFeeds nw sp t w)) = set_discovered c (self w))
   \<or> self (snd (Client_getFeeds nw sp t w)) = self w"
  by (auto simp: Client_getFeeds_def andThen_def get_self_def on_object_def reject_def
      update_self_def resolve_def split: prod.splits sum.splits option.splits)

lemma Client_getFeeds_kept: "urls_kept (self w) (self (snd (Client_getFeeds nw sp t w)))"
  using Client_getFeeds_self [of nw sp t w] urls_kept_refl urls_kept_set_discovered
  by auto

lemma Client_fetchRes_kept:
  "urls_kept (self w) (object_after (Client_fetchRes nw resUrl cls sp t w))"
proof (cases "url_truthy resUrl")
  case True
  then show ?thesis
    by (simp add: Client_fetchRes_def object_after_def Client_getRes_self urls_kept_refl)
next
  case False
  obtain r w1 where s: "Client_setUrls nw (ArgNum 30000) w = (r, w1)"
    by (cases "Client_setUrls nw (ArgNum 30000) w")
  then have k: "urls_kept (self w) (self w1)"
    using Client_getFeeds_kept [of w nw "ArgNum 30000" "ArgNum 30000"]
    by (simp add: Client_setUrls_def)
  show ?thesis
    using False s k
    by (cases r) (simp_all add: Client_fetchRes_def object_after_def andThen_def Client_getRes_self)
qed

lemma Client_fetchRes_reuse:
  assumes "url_truthy resUrl"
  shows "object_after (Client_fetchRes nw resUrl cls sp t w) = self w
         \<and> (\<exists>rq. requests_of (Client_fetchRes nw resUrl cls sp t w) = sent w @ [rq]
                \<and> req_url rq = resUrl \<and> req_method rq = GET)"
  using assms Client_getRes_sent [of nw resUrl cls sp t w]
  by (simp add: Client_fetchRes_def object_after_def requests_of_def Client_getRes_self)

lemma Client_fetchRes_discovers_first:
  assumes "\<not> url_truthy resUrl"
  shows "take (Suc (length (sent w))) (requests_of (Client_fetchRes nw resUrl cls sp t w)) =
           sent w @ [discovery_request (self w)]"
proof -
  obtain r w1 where s: "Client_setUrls nw (ArgNum 30000) w = (r, w1)"
    by (cases "Client_setUrls nw (ArgNum 30000) w")
  then have w1: "sent w1 = sent w @ [discovery_request (self w)]"
    using Client_getFeeds_sent [of nw "ArgNum 30000" "ArgNum 30000" w]
    by (simp add: Client_setUrls_def discovery_request_def)
  show ?thesis
  proof (cases r)
    case (Inl e)
    with assms s w1 show ?thesis
      by (simp add: Client_fetchRes_def requests_of_def andThen_def)
  next
    case (Inr v)
    from Client_getRes_sent [of nw resUrl cls sp t w1] obtain rq where
      "sent (snd (Client_getRes nw resUrl cls sp t w1)) = sent w1 @ [rq]"
      by blast
    with Inr assms s w1 show ?thesis
      by (simp add: Client_fetchRes_def requests_of_def andThen_def)
  qed
qed

lemma Client_fetchRes_populates:
  assumes "\<not> url_truthy resUrl"
    and "replies_collection nw (sent w) (discovery_request (self w)) c"
  shows "object_after (Client_fetchRes nw resUrl cls sp t w) = set_discovered c (self w)"
  using assms Client_getFeeds_reply [of nw w "ArgNum 30000" "ArgNum 30000" c]
  by (simp add: Client_fetchRes_def Client_setUrls_def discovery_request_def andThen_def
      object_after_def Client_getRes_self)

lemma run_getter_fetchRes:
  "\<exists>cls sp'. run_getter nw g sp t w = Client_fetchRes nw (getter_url g (self w)) cls sp' t w"
  by (cases g)
    (auto simp: Client_getFiles_def Client_getPlugins_def Client_getPluginInstances_def
      Client_getPipelines_def Client_getPipelineInstances_def Client_getTags_def
      Client_getUploadedFiles_def Client_getUser_def andThen_get_self)

lemma set_discovered_field:
  "\<not> url_truthy (getter_url g this) \<Longrightarrow>
     getter_url g (set_discovered c this) = UArr (getLinkRelationUrls (OfCollection c) (getter_rel g))"
  by (cases g) (simp_all add: set_discovered_def url_or_def)

lemma setPipelinesUrls_reply:
  assumes "replies_collection nw (sent w)
             (get_request (StoreClient_request (self w)) (UStr (storeUrl (self w))) ArgNull) c0"
  shows "StoreClient_setPipelinesUrls nw w =
           (Inr (), w\<lparr>self := discovered_store c0 (self w),
                      sent := sent w @ [get_request (StoreClient_request (self w))
                                          (UStr (storeUrl (self w))) ArgNull]\<rparr>)"
  by (simp add: StoreClient_setPipelinesUrls_def andThen_get_self
      then_fetchCollection [OF assms] discovered_store_def update_self_def)

lemma then_setPipelinesUrls:
  assumes "replies_collection nw (sent w)
             (get_request (StoreClient_request (self w)) (UStr (storeUrl (self w))) ArgNull) c0"
  shows "andThen (StoreClient_setPipelinesUrls nw) f w =
           f () (w\<lparr>self := discovered_store c0 (self w),
                   sent := sent w @ [get_request (StoreClient_request (self w))
                                       (UStr (storeUrl (self w))) ArgNull]\<rparr>)"
  by (simp add: andThen_def setPipelinesUrls_reply [OF assms])

lemma getPipeline_after_discovery:
  assumes "pipelinesQueryUrl (self w) = []"
    and "replies_collection nw (sent w)
           (get_request (StoreClient_request (self w)) (UStr (storeUrl (self w))) ArgNull) c0"
    and "replies_collection nw
           (sent w @ [get_request (StoreClient_request (self w)) (UStr (storeUrl (self w))) ArgNull])
           (get_request (StoreClient_request (self w))
              (UStr (pipelinesQueryUrl (discovered_store c0 (self w)))) (id_params ident)) c"
    and "items c = []"
  shows "outcome_of (StoreClient_getPipeline nw ident w) = Inl (not_found ident)"
proof -
  let ?w1 = "w\<lparr>self := discovered_store c0 (self w),
                sent := sent w @ [get_request (StoreClient_request (self w))
                                    (UStr (storeUrl (self w))) ArgNull]\<rparr>"
  have same: "StoreClient_request (discovered_store c0 (self w)) = StoreClient_request (self w)"
    by (simp add: StoreClient_request_def discovered_store_def)
  have "replies_collection nw (sent ?w1)
          (get_request (StoreClient_request (self ?w1)) (UStr (pipelinesQueryUrl (self ?w1)))
             (id_params ident)) c"
    using assms(3) by (simp add: same)
  from getItemResourceData_no_match [OF assms(4) this]
  show ?thesis
    by (simp add: StoreClient_getPipeline_def andThen_get_self assms(1)
        then_setPipelinesUrls [OF assms(2)])
qed

lemma getItemResourceData_sent:
  "sent (snd (StoreClient_getItemResourceData nw u ident w)) =
     sent w @ [get_request (StoreClient_request (self w)) u (id_params ident)]"
proof -
  have "sent (snd ((case coll of None \<Rightarrow> reject TypeError
                    | Some c \<Rightarrow> if items c \<noteq> []
                        then settle (getDataFromCollection (Some c) ''item'')
                        else reject (not_found ident)) w')) = sent w'"
    for coll and w' :: "StoreClient world"
    by (simp add: reject_def settle_def split: option.splits)
  then show ?thesis
    by (simp add: StoreClient_getItemResourceData_def andThen_sent fetchCollection_sent)
qed

lemma getPipeline_discovery_requests:
  assumes "pipelinesQueryUrl (self w) = []"
    and "replies_collection nw (sent w)
           (get_request (StoreClient_request (self w)) (UStr (storeUrl (self w))) ArgNull) c0"
  shows "requests_of (StoreClient_getPipeline nw ident w) =
           sent w @ [get_request (StoreClient_request (self w)) (UStr (storeUrl (self w))) ArgNull,
                     get_request (StoreClient_request (self w))
                       (UStr (join_comma (getLinkRelationUrls (OfCollection c0) ''pipelines'')
                              @ ''search/''))
                       (id_params ident)]"
  by (simp add: StoreClient_getPipeline_def andThen_get_self assms(1)
      then_setPipelinesUrls [OF assms(2)] requests_of_def getItemResourceData_sent
      discovered_store_def StoreClient_request_def)

lemma Client_setUrls_reply:
  assumes "replies_collection nw (sent w) (discovery_request (self w)) c0"
  shows "Client_setUrls nw (ArgNum 30000) w =
           (Inr (fetched (new_resource (feedsUrl (self w)) (auth (self w))) c0 (ArgNum 30000)),
            w\<lparr>self := set_discovered c0 (self w),
              sent := sent w @ [discovery_request (self w)]\<rparr>)"
  using Client_getFeeds_reply [of nw w "ArgNum 30000" "ArgNum 30000" c0] assms
  by (simp add: Client_setUrls_def discovery_request_def)

lemma Client_lookup_after_discovery:
  assumes "items c = []" and "\<not> url_truthy u" and "is_list_class cls"
    and "replies_collection nw (sent w) (discovery_request (self w)) c0"
    and "replies_collection nw (sent w @ [discovery_request (self w)])
           (list_get_request (self w) u (id_params ident) t) c"
  shows "outcome_of (andThen (Client_fetchRes nw u cls (id_params ident) t)
            (\<lambda>listRes. settle (ListResource_getItem listRes ident)) w) = Inl NotFoundError"
proof -
  let ?w1 = "w\<lparr>self := set_discovered c0 (self w),
                sent := sent w @ [discovery_request (self w)]\<rparr>"
  have same: "list_get_request (set_discovered c0 (self w)) u (id_params ident) t =
              list_get_request (self w) u (id_params ident) t"
    by (simp add: list_get_request_def set_discovered_def)
  have "replies_collection nw (sent ?w1) (list_get_request (self ?w1) u (id_params ident) t) c"
    using assms(5) by (simp add: same)
  from Client_getRes_list_reply [OF assms(3) _ this]
  show ?thesis
    using assms(1,2)
    by (simp add: Client_fetchRes_def Client_setUrls_reply [OF assms(4)] andThen_def
        settle_def outcome_of_def id_params_def getItem_no_items)
qed

section \<open>The properties\<close>

text \<open>
  C1 (as amended). A lookup by id whose fetch succeeds and matches no item fails. In
  the \<open>StoreClient\<close> (\<open>_getItemResourceData\<close>, hence \<open>getPlugin\<close> and
  \<open>getPipeline\<close>, with the pipelines url set or discovered on the way) the failure is
  the \<open>RequestException\<close> with the message
  \<open>'Could not find resource with id: ' + id\<close> and neither request nor response. In the
  \<open>Client\<close> (\<open>getFeed\<close>, \<open>getFile\<close>, \<open>getPlugin\<close>, \<open>getPluginInstance\<close>,
  \<open>getPipeline\<close>, \<open>getPipelineInstance\<close>, \<open>getTag\<close>, \<open>getUploadedFile\<close>) the
  empty match is left to \<open>getItem\<close> of the list resource, whose failure is
  \<open>NotFoundError\<close>, both when the url of the list is already set and when the client,
  as a newly constructed one does, first fetches the feed list to discover the urls.
\<close>

theorem lookup_with_no_match:
  assumes "items c = []"
  shows
    "not_found ident =
       RequestException (TextNumber ''Could not find resource with id: '' ident) None None
     \<and> (replies_collection nw (sent w)
           (get_request (StoreClient_request (self w)) u (id_params ident)) c
         \<longrightarrow> outcome_of (StoreClient_getItemResourceData nw u ident w) = Inl (not_found ident))
     \<and> (replies_collection nw (sent w)
           (get_request (StoreClient_request (self w)) (UStr (storeQueryUrl (self w)))
              (id_params ident)) c
         \<longrightarrow> outcome_of (StoreClient_getPlugin nw ident w) = Inl (not_found ident))
     \<and> (pipelinesQueryUrl (self w) \<noteq> [] \<and>
         replies_collection nw (sent w)
           (get_request (StoreClient_request (self w)) (UStr (pipelinesQueryUrl (self w)))
              (id_params ident)) c
         \<longrightarrow> outcome_of (StoreClient_getPipeline nw ident w) = Inl (not_found ident))
     \<and> (pipelinesQueryUrl (self w) = [] \<and>
         replies_collection nw (sent w)
           (get_request (StoreClient_request (self w)) (UStr (storeUrl (self w))) ArgNull) c0 \<and>
         replies_collection nw
           (sent w @ [get_request (StoreClient_request (self w)) (UStr (storeUrl (self w))) ArgNull])
           (get_request (StoreClient_request (self w))
              (UStr (join_comma (getLinkRelationUrls (OfCollection c0) ''pipelines'') @ ''search/''))
              (id_params ident)) c
         \<longrightarrow> outcome_of (StoreClient_getPipeline nw ident w) = Inl (not_found ident))
     \<and> (replies_collection nw (sent cw)
           (list_get_request (self cw) (feedsUrl (self cw)) (id_params ident) t) c
         \<longrightarrow> outcome_of (Client_getFeed nw ident t cw) = Inl NotFoundError)
     \<and> (url_truthy (filesUrl (self cw)) \<and>
         replies_collection nw (sent cw)
           (list_get_request (self cw) (filesUrl (self cw)) (id_params ident) t) c
         \<longrightarrow> outcome_of (Client_getFile nw ident t cw) = Inl NotFoundError)
     \<and> (\<not> url_truthy (filesUrl (self cw)) \<and>
         replies_collection nw (sent cw) (discovery_request (self cw)) c1 \<and>
         replies_collection nw (sent cw @ [discovery_request (self cw)])
           (list_get_request (self cw) (filesUrl (self cw)) (id_params ident) t) c
         \<longrightarrow> outcome_of (Client_getFile nw ident t cw) = Inl NotFoundError)
     \<and> (url_truthy (pluginsUrl (self cw)) \<and>
         replies_collection nw (sent cw)
           (list_get_request (self cw) (pluginsUrl (self cw)) (id_params ident) t) c
         \<longrightarrow> outcome_of (Client_getPlugin nw ident t cw) = Inl NotFoundError)
     \<and> (\<not> url_truthy (pluginsUrl (self cw)) \<and>
         replies_collection nw (sent cw) (discovery_request (self cw)) c1 \<and>
         replies_collection nw (sent cw @ [discovery_request (self cw)])
           (list_get_request (self cw) (pluginsUrl (self cw)) (id_params ident) t) c
         \<longrightarrow> outcome_of (Client_getPlugin nw ident t cw) = Inl NotFoundError)
     \<and> (url_truthy (pluginInstancesUrl (self cw)) \<and>
         replies_collection nw (sent cw)
           (list_get_request (self cw) (pluginInstancesUrl (self cw)) (id_params ident) t) c
         \<longrightarrow> outcome_of (Client_getPluginInstance nw ident t cw) = Inl NotFoundError)
     \<and> (\<not> url_truthy (pluginInstancesUrl (self cw)) \<and>
         replies_collection nw (sent cw) (discovery_request (self cw)) c1 \<and>
         replies_collection nw (sent cw @ [discovery_request (self cw)])
           (list_get_request (self cw) (pluginInstancesUrl (self cw)) (id_params ident) t) c
         \<longrightarrow> outcome_of (Client_getPluginInstance nw ident t cw) = Inl NotFoundError)
     \<and> (url_truthy (pipelinesUrl (self cw)) \<and>
         replies_collection nw (sent cw)
           (list_get_request (self cw) (pipelinesUrl (self cw)) (id_params ident) t) c
         \<longrightarrow> outcome_of (Client_getPipeline nw ident t cw) = Inl NotFoundError)
     \<and> (\<not> url_truthy (pipelinesUrl (self cw)) \<and>
         replies_collection nw (sent cw) (discovery_request (self cw)) c1 \<and>
         replies_collection nw (sent cw @ [discovery_request (self cw)])
           (list_get_request (self cw) (pipelinesUrl (self cw)) (id_params ident) t) c
         \<longrightarrow> outcome_of (Client_getPipeline nw ident t cw) = Inl NotFoundError)
     \<and> (url_truthy (pipelineInstancesUrl (self cw)) \<and>
         replies_collection nw (sent cw)
           (list_get_request (self cw) (pipelineInstancesUrl (self cw)) (id_params ident) t) c
         \<longrightarrow> outcome_of (Client_getPipelineInstance nw ident t cw) = Inl NotFoundError)
     \<and> (\<not> url_truthy (pipelineInstancesUrl (self cw)) \<and>
         replies_collection nw (sent cw) (discovery_request (self cw)) c1 \<and>
         replies_collection nw (sent cw @ [discovery_request (self cw)])
           (list_get_request (self cw) (pipelineInstancesUrl (self cw)) (id_params ident) t) c
         \<longrightarrow> outcome_of (Client_getPipelineInstance nw ident t cw) = Inl NotFoundError)
     \<and> (url_truthy (tagsUrl (self cw)) \<and>
         replies_collection nw (sent cw)
           (list_get_request (self cw) (tagsUrl (self cw)) (id_params ident) t) c
         \<longrightarrow> outcome_of (Client_getTag nw ident t cw) = Inl NotFoundError)
     \<and> (\<not> url_truthy (tagsUrl (self cw)) \<and>
         replies_collection nw (sent cw) (discovery_request (self cw)) c1 \<and>
         replies_collection nw (sent cw @ [discovery_request (self cw)])
           (list_get_request (self cw) (tagsUrl (self cw)) (id_params ident) t) c
         \<longrightarrow> outcome_of (Client_getTag nw ident t cw) = Inl NotFoundError)
     \<and> (url_truthy (uploadedFilesUrl (self cw)) \<and>
         replies_collection nw (sent cw)
           (list_get_request (self cw) (uploadedFilesUrl (self cw)) (id_params ident) t) c
         \<longrightarrow> outcome_of (Client_getUploadedFile nw ident t cw) = Inl NotFoundError)
     \<and> (\<not> url_truthy (uploadedFilesUrl (self cw)) \<and>
         replies_collection nw (sent cw) (discovery_request (self cw)) c1 \<and>
         replies_collection nw (sent cw @ [discovery_request (self cw)])
           (list_get_request (self cw) (uploadedFilesUrl (self cw)) (id_params ident) t) c
         \<longrightarrow> outcome_of (Client_getUploadedFile nw ident t cw) = Inl NotFoundError)"
proof -
  note store = getItemResourceData_no_match [OF assms]
  have plugin: "outcome_of (StoreClient_getPlugin nw ident w) = Inl (not_found ident)"
    if "replies_collection nw (sent w)
          (get_request (StoreClient_request (self w)) (UStr (storeQueryUrl (self w)))
             (id_params ident)) c"
    using store [OF that]
    by (simp add: StoreClient_getPlugin_def andThen_def get_self_def)
  have pipeline: "outcome_of (StoreClient_getPipeline nw ident w) = Inl (not_found ident)"
    if "pipelinesQueryUrl (self w) \<noteq> []"
      "replies_collection nw (sent w)
          (get_request (StoreClient_request (self w)) (UStr (pipelinesQueryUrl (self w)))
             (id_params ident)) c"
    using store [OF that(2)] that(1)
    by (simp add: StoreClient_getPipeline_def andThen_def get_self_def)
  have discover: "outcome_of (StoreClient_getPipeline nw ident w) = Inl (not_found ident)"
    if "pipelinesQueryUrl (self w) = []"
      "replies_collection nw (sent w)
           (get_request (StoreClient_request (self w)) (UStr (storeUrl (self w))) ArgNull) c0"
      "replies_collection nw
           (sent w @ [get_request (StoreClient_request (self w)) (UStr (storeUrl (self w))) ArgNull])
           (get_request (StoreClient_request (self w))
              (UStr (join_comma (getLinkRelationUrls (OfCollection c0) ''pipelines'') @ ''search/''))
              (id_params ident)) c"
    using getPipeline_after_discovery [OF that(1,2) _ assms] that(3)
    by (simp add: discovered_store_def)
  have feed: "outcome_of (Client_getFeed nw ident t cw) = Inl NotFoundError"
    if "replies_collection nw (sent cw)
          (list_get_request (self cw) (feedsUrl (self cw)) (id_params ident) t) c"
    using Client_getFeeds_reply [OF that] assms
    by (simp add: Client_getFeed_def andThen_def settle_def outcome_of_def getItem_no_items)
  note look = Client_lookup_no_match [OF assms, where nw = nw and w = cw and ident = ident and t = t]
  note disc = Client_lookup_after_discovery [OF assms, where nw = nw and w = cw and ident = ident
      and t = t and ?c0.0 = c1]
  show ?thesis
    using store plugin pipeline discover feed
      disc [of "filesUrl (self cw)" AllFeedFileList]
      disc [of "pluginsUrl (self cw)" PluginList]
      disc [of "pluginInstancesUrl (self cw)" AllPluginInstanceList]
      disc [of "pipelinesUrl (self cw)" PipelineList]
      disc [of "pipelineInstancesUrl (self cw)" AllPipelineInstanceList]
      disc [of "tagsUrl (self cw)" TagList]
      disc [of "uploadedFilesUrl (self cw)" UploadedFileList]
      look [of "filesUrl (self cw)" AllFeedFileList]
      look [of "pluginsUrl (self cw)" PluginList]
      look [of "pluginInstancesUrl (self cw)" AllPluginInstanceList]
      look [of "pipelinesUrl (self cw)" PipelineList]
      look [of "pipelineInstancesUrl (self cw)" AllPipelineInstanceList]
      look [of "tagsUrl (self cw)" TagList]
      look [of "uploadedFilesUrl (self cw)" UploadedFileList]
    by (simp add: not_found_def Client_getFile_def Client_getPlugin_def
        Client_getPluginInstance_def Client_getPipeline_def Client_getPipelineInstance_def
        Client_getTag_def Client_getUploadedFile_def Client_getFiles_def Client_getPlugins_def
        Client_getPluginInstances_def Client_getPipelines_def Client_getPipelineInstances_def
        Client_getTags_def Client_getUploadedFiles_def andThen_def get_self_def outcome_of_def)
qed

text \<open>
  C1 at concrete data: every lookup of the theorem, on a store client and a client whose
  urls are set, answered with a collection that has no item.
\<close>

theorem lookup_with_no_match_witness:
  "outcome_of (StoreClient_getItemResourceData (scripted [ok (example_collection [] [])])
      (UStr ''http://localhost:8010/api/v1/search/'') 7 (start store1))
     = Inl (RequestException (TextNumber ''Could not find resource with id: '' 7) None None)
   \<and> outcome_of (StoreClient_getPlugin (scripted [ok (example_collection [] [])]) 7 (start store1))
     = Inl (RequestException (TextNumber ''Could not find resource with id: '' 7) None None)
   \<and> outcome_of (StoreClient_getPipeline (scripted [ok (example_collection [] [])]) 7 (start store1))
     = Inl (RequestException (TextNumber ''Could not find resource with id: '' 7) None None)
   \<and> outcome_of (StoreClient_getPipeline
        (scripted [ok (example_collection pipelines_link []), ok (example_collection [] [])])
        7 (start store0))
     = Inl (RequestException (TextNumber ''Could not find resource with id: '' 7) None None)
   \<and> outcome_of (Client_getFeed (scripted [ok (example_collection [] [])]) 7 (ArgNum 30000) (start client1))
     = Inl NotFoundError
   \<and> outcome_of (Client_getFile (scripted [ok (example_collection [] [])]) 7 (ArgNum 30000) (start client1))
     = Inl NotFoundError
   \<and> outcome_of (Client_getPlugin (scripted [ok (example_collection [] [])]) 7 (ArgNum 30000) (start client1))
     = Inl NotFoundError
   \<and> outcome_of (Client_getPluginInstance (scripted [ok (example_collection [] [])]) 7 (ArgNum 30000) (start client1))
     = Inl NotFoundError
   \<and> outcome_of (Client_getPipeline (scripted [ok (example_collection [] [])]) 7 (ArgNum 30000) (start client1))
     = Inl NotFoundError
   \<and> outcome_of (Client_getPipelineInstance (scripted [ok (example_collection [] [])]) 7 (ArgNum 30000) (start client1))
     = Inl NotFoundError
   \<and> outcome_of (Client_getTag (scripted [ok (example_collection [] [])]) 7 (ArgNum 30000) (start client1))
     = Inl NotFoundError
   \<and> outcome_of (Client_getUploadedFile (scripted [ok (example_collection [] [])]) 7 (ArgNum 30000) (start client1))
     = Inl NotFoundError
   \<and> outcome_of (Client_getFile (scripted [ok feeds_collection, ok (example_collection [] [])])
        7 (ArgNum 30000) (start client0))
     = Inl NotFoundError
   \<and> outcome_of (Client_getPlugin (scripted [ok feeds_collection, ok (example_collection [] [])])
        7 (ArgNum 30000) (start client0))
     = Inl NotFoundError
   \<and> outcome_of (Client_getPluginInstance (scripted [ok feeds_collection, ok (example_collection [] [])])
        7 (ArgNum 30000) (start client0))
     = Inl NotFoundError
   \<and> outcome_of (Client_getPipeline (scripted [ok feeds_collection, ok (example_collection [] [])])
        7 (ArgNum 30000) (start client0))
     = Inl NotFoundError
   \<and> outcome_of (Client_getPipelineInstance (scripted [ok feeds_collection, ok (example_collection [] [])])
        7 (ArgNum 30000) (start client0))
     = Inl NotFoundError
   \<and> outcome_of (Client_getTag (scripted [ok feeds_collection, ok (example_collection [] [])])
        7 (ArgNum 30000) (start client0))
     = Inl NotFoundError
   \<and> outcome_of (Client_getUploadedFile (scripted [ok feeds_collection, ok (example_collection [] [])])
        7 (ArgNum 30000) (start client0))
     = Inl NotFoundError"
proof -
  let ?nw = "scripted [ok (example_collection [] [])]"
  have none: "items (example_collection [] []) = []"
    by (simp add: example_collection_def)
  have answered: "replies_collection ?nw (sent (start ob)) rq (example_collection [] [])" for ob :: 'o and rq
    by (simp add: replies_collection_def scripted_def ok_def start_def is_2xx_def)
  have set: "pipelinesQueryUrl (self (start store1)) \<noteq> []"
    "url_truthy (filesUrl (self (start client1)))"
    "url_truthy (pluginsUrl (self (start client1)))"
    "url_truthy (pluginInstancesUrl (self (start client1)))"
    "url_truthy (pipelinesUrl (self (start client1)))"
    "url_truthy (pipelineInstancesUrl (self (start client1)))"
    "url_truthy (tagsUrl (self (start client1)))"
    "url_truthy (uploadedFilesUrl (self (start client1)))"
    by (simp_all add: start_def store1_def client1_def)
  let ?n2 = "scripted [ok (example_collection pipelines_link []), ok (example_collection [] [])]"
  have unset: "pipelinesQueryUrl (self (start store0)) = []"
    by (simp add: start_def store0_def StoreClient_constructor_def)
  have first: "replies_collection ?n2 (sent (start store0)) rq (example_collection pipelines_link [])"
    for rq
    by (simp add: replies_collection_def scripted_def ok_def start_def is_2xx_def)
  have second: "replies_collection ?n2 (sent (start store0) @ [r]) rq (example_collection [] [])"
    for r rq
    by (simp add: replies_collection_def scripted_def ok_def start_def is_2xx_def)
  let ?n3 = "scripted [ok feeds_collection, ok (example_collection [] [])]"
  have fresh: "\<not> url_truthy (filesUrl (self (start client0)))"
    "\<not> url_truthy (pluginsUrl (self (start client0)))"
    "\<not> url_truthy (pluginInstancesUrl (self (start client0)))"
    "\<not> url_truthy (pipelinesUrl (self (start client0)))"
    "\<not> url_truthy (pipelineInstancesUrl (self (start client0)))"
    "\<not> url_truthy (tagsUrl (self (start client0)))"
    "\<not> url_truthy (uploadedFilesUrl (self (start client0)))"
    by (simp_all add: start_def client0_def)
  have discovery: "replies_collection ?n3 (sent (start client0)) rq feeds_collection" for rq
    by (simp add: replies_collection_def scripted_def ok_def start_def is_2xx_def)
  have lookup: "replies_collection ?n3 (sent (start client0) @ [r]) rq (example_collection [] [])"
    for r rq
    by (simp add: replies_collection_def scripted_def ok_def start_def is_2xx_def)
  note c2 = conjunct2
  from lookup_with_no_match [OF none, where nw = ?nw and w = "start store1"
      and u = "UStr ''http://localhost:8010/api/v1/search/''" and ident = 7
      and cw = "start client1" and t = "ArgNum 30000"
      and ?c0.0 = "example_collection pipelines_link []" and ?c1.0 = feeds_collection]
    lookup_with_no_match [OF none, where nw = ?n2 and w = "start store0" and ident = 7
      and ?c0.0 = "example_collection pipelines_link []",
      THEN c2, THEN c2, THEN c2, THEN c2, THEN conjunct1]
    lookup_with_no_match [OF none, where nw = ?n3 and cw = "start client0" and ident = 7
      and t = "ArgNum 30000" and ?c1.0 = feeds_collection,
      THEN c2, THEN c2, THEN c2, THEN c2, THEN c2, THEN c2]
  show ?thesis
    by (simp only: answered set unset first second fresh discovery lookup simp_thms append.simps)
qed

text \<open>
  The claim as first stated fails in the store client: the empty match of
  \<open>getPlugin(7)\<close> is reported as a \<open>RequestException\<close>, not as \<open>NotFoundError\<close>.
\<close>

theorem store_lookup_is_RequestException:
  "outcome_of (StoreClient_getPlugin (scripted [ok (example_collection [] [])]) 7 (start store0))
     = Inl (RequestException (TextNumber ''Could not find resource with id: '' 7) None None)
   \<and> outcome_of (StoreClient_getPlugin (scripted [ok (example_collection [] [])]) 7 (start store0))
     \<noteq> Inl NotFoundError"
proof -
  have "replies_collection (scripted [ok (example_collection [] [])]) (sent (start store0))
          (get_request (StoreClient_request (self (start store0)))
             (UStr (storeQueryUrl (self (start store0)))) (id_params 7))
          (example_collection [] [])"
    by (simp add: replies_collection_def scripted_def ok_def start_def is_2xx_def)
  from getItemResourceData_no_match [OF _ this]
  show ?thesis
    by (simp add: StoreClient_getPlugin_def andThen_def get_self_def example_collection_def
        not_found_def)
qed

text \<open>
  C2 (as amended). Without an authentication object the constructor of \<open>Client\<close>
  throws at once, and what it throws is the \<open>RequestException\<close> with the message
  \<open>'Authentication object is required'\<close>; with one it builds the client. The
  constructor of \<open>StoreClient\<close> takes the missing object as \<open>null\<close> and builds a
  client whose \<open>auth\<close> is \<open>null\<close>.
\<close>

theorem constructors_without_credentials:
  "Client_constructor u None = Inl (RequestException (Text ''Authentication object is required'') None None)
   \<and> (\<exists>c. Client_constructor u (Some a) = Inr c \<and> auth c = Some a)
   \<and> auth_s (StoreClient_constructor su None t) = None"
  by (simp add: Client_constructor_def StoreClient_constructor_def)

text \<open>
  The claim as first stated fails twice: the error of the \<open>Client\<close> constructor is not
  \<open>ConfigError\<close>, and a \<open>StoreClient\<close> is built with no credentials.
\<close>

theorem constructor_not_ConfigError:
  "Client_constructor ''http://localhost:8000/api/v1/'' None \<noteq> Inl ConfigError
   \<and> auth_s (StoreClient_constructor ''http://localhost:8010/api/v1/'' None (ArgNum 30000)) = None"
  by (simp add: Client_constructor_def StoreClient_constructor_def)

text \<open>
  C3 (as amended). \<open>getAuthToken\<close> of both clients sends one POST with the content
  type \<open>application/json\<close> and the plain object \<open>{username, password}\<close>, and resolves
  to \<open>resp.data.token\<close> of a 2xx answer, the token string of a token document.
  \<open>createUser\<close> of both clients sends one POST with the Collection+JSON content type
  whose body is the template envelope with the descriptors \<open>username\<close>,
  \<open>password\<close>, \<open>email\<close>, in this order.
\<close>

theorem token_and_account_requests:
  "requests_of (Client_getAuthToken nw authUrl username password t w) =
     sent w @ [\<lparr>req_method = POST, req_url = UStr authUrl, req_params = ArgNull,
                 req_data = PlainData [(''username'', JStr username), (''password'', JStr password)],
                 req_file = None, req_auth = None, req_contentType = ''application/json'',
                 req_timeout = t\<rparr>]
   \<and> requests_of (StoreClient_getAuthToken nw authUrl username password t w) =
     requests_of (Client_getAuthToken nw authUrl username password t w)
   \<and> (nw (sent w)
         (post_request \<lparr>auth_r = None, contentType_r = ''application/json'', timeout_r = t\<rparr>
            (UStr authUrl)
            (PlainData [(''username'', JStr username), (''password'', JStr password)]) None)
         = Reply resp \<and> is_2xx resp
       \<longrightarrow> outcome_of (Client_getAuthToken nw authUrl username password t w) =
             Inr (data_token (resp_data resp))
         \<and> outcome_of (StoreClient_getAuthToken nw authUrl username password t w) =
             Inr (data_token (resp_data resp)))
   \<and> data_token (TokenDoc tok) = JStr tok
   \<and> requests_of (Client_createUser nw usersUrl username password email t w) =
     sent w @ [\<lparr>req_method = POST, req_url = UStr usersUrl, req_params = ArgNull,
                 req_data = TemplateData [\<lparr>name = ''username'', val = JStr username\<rparr>,
                                          \<lparr>name = ''password'', val = JStr password\<rparr>,
                                          \<lparr>name = ''email'', val = JStr email\<rparr>],
                 req_file = None, req_auth = None, req_contentType = cj_type,
                 req_timeout = t\<rparr>]
   \<and> requests_of (StoreClient_createUser nw usersUrl username password email t w) =
     requests_of (Client_createUser nw usersUrl username password email t w)"
proof -
  have a: "requests_of (Client_getAuthToken nw authUrl username password t w) =
     sent w @ [post_request \<lparr>auth_r = None, contentType_r = ''application/json'', timeout_r = t\<rparr>
            (UStr authUrl)
            (PlainData [(''username'', JStr username), (''password'', JStr password)]) None]"
    unfolding Client_getAuthToken_def Request_post_def
    by (rule andThen_transport_sent) (simp add: resolve_def)
  have b: "StoreClient_getAuthToken nw authUrl username password t w =
           Client_getAuthToken nw authUrl username password t w"
    by (simp add: StoreClient_getAuthToken_def Client_getAuthToken_def)
  have c: "outcome_of (Client_getAuthToken nw authUrl username password t w) =
             Inr (data_token (resp_data resp))"
    if "nw (sent w)
         (post_request \<lparr>auth_r = None, contentType_r = ''application/json'', timeout_r = t\<rparr>
            (UStr authUrl)
            (PlainData [(''username'', JStr username), (''password'', JStr password)]) None)
         = Reply resp" "is_2xx resp"
    using that
    by (simp add: Client_getAuthToken_def Request_post_def andThen_def resolve_def
        outcome_of_def transport_def is_2xx_def)
  have d: "requests_of (Client_createUser nw usersUrl username password email t w) =
     sent w @ [post_request \<lparr>auth_r = None, contentType_r = cj_type, timeout_r = t\<rparr>
            (UStr usersUrl) (user_template username password email) None]"
    unfolding Client_createUser_def Request_post_def
    by (rule andThen_transport_sent)
      (simp add: resolve_def reject_def split: option.splits list.splits)
  have e: "requests_of (StoreClient_createUser nw usersUrl username password email t w) =
     sent w @ [post_request \<lparr>auth_r = None, contentType_r = cj_type, timeout_r = t\<rparr>
            (UStr usersUrl) (user_template username password email) None]"
    unfolding StoreClient_createUser_def Request_post_def
    by (rule andThen_transport_sent) (simp add: settle_def)
  show ?thesis
    using a c d e by (simp add: b post_request_def user_template_def)
qed

text \<open>
  C3 at concrete data: the token of a 200 answer.
\<close>

theorem token_and_account_requests_witness:
  "outcome_of (Client_getAuthToken
       (scripted [Reply \<lparr>status = 200, resp_data = TokenDoc ''d757da9c364f''\<rparr>])
       ''http://localhost:8000/api/v1/auth-token/'' ''cube'' ''cube1234'' (ArgNum 30000) (start ()))
     = Inr (JStr ''d757da9c364f'')
   \<and> outcome_of (StoreClient_getAuthToken
       (scripted [Reply \<lparr>status = 200, resp_data = TokenDoc ''d757da9c364f''\<rparr>])
       ''http://localhost:8000/api/v1/auth-token/'' ''cube'' ''cube1234'' (ArgNum 30000) (start ()))
     = Inr (JStr ''d757da9c364f'')"
proof -
  let ?nw = "scripted [Reply \<lparr>status = 200, resp_data = TokenDoc ''d757da9c364f''\<rparr>]"
  have answered: "?nw (sent (start ())) rq = Reply \<lparr>status = 200, resp_data = TokenDoc ''d757da9c364f''\<rparr>" for rq
    by (simp add: scripted_def start_def)
  have good: "is_2xx \<lparr>status = 200, resp_data = TokenDoc ''d757da9c364f''\<rparr>"
    by (simp add: is_2xx_def)
  from token_and_account_requests [where nw = ?nw and w = "start ()" and tok = "''d757da9c364f''"
      and resp = "\<lparr>status = 200, resp_data = TokenDoc ''d757da9c364f''\<rparr>"
      and authUrl = "''http://localhost:8000/api/v1/auth-token/''" and username = "''cube''"
      and password = "''cube1234''" and t = "ArgNum 30000"]
  show ?thesis
    by (simp add: answered good)
qed

text \<open>
  The claim as first stated fails for \<open>createUser\<close>: the body it posts is the template
  envelope, not the plain object \<open>{username, password, email}\<close>.
\<close>

theorem createUser_posts_template:
  "map req_data (requests_of (Client_createUser (scripted []) ''http://localhost:8000/api/v1/users/''
       ''alice'' ''alice1234'' ''alice@babymri.org'' (ArgNum 30000) (start ())))
     = [TemplateData [\<lparr>name = ''username'', val = JStr ''alice''\<rparr>,
                      \<lparr>name = ''password'', val = JStr ''alice1234''\<rparr>,
                      \<lparr>name = ''email'', val = JStr ''alice@babymri.org''\<rparr>]]
   \<and> map req_contentType (requests_of (Client_createUser (scripted []) ''http://localhost:8000/api/v1/users/''
       ''alice'' ''alice1234'' ''alice@babymri.org'' (ArgNum 30000) (start ())))
     = [cj_type]
   \<and> map req_data (requests_of (Client_createUser (scripted []) ''http://localhost:8000/api/v1/users/''
       ''alice'' ''alice1234'' ''alice@babymri.org'' (ArgNum 30000) (start ())))
     \<noteq> [PlainData [(''username'', JStr ''alice''), (''password'', JStr ''alice1234''),
                     (''email'', JStr ''alice@babymri.org'')]]"
  by (simp add: Client_createUser_def Request_post_def andThen_def transport_def scripted_def
      start_def requests_of_def post_request_def user_template_def)

text \<open>
  C4 (as amended). When the item found by \<open>_getResourceRelatedListData\<close> carries no
  link of the relation asked for, the operation resolves to the empty page
  \<open>{data: [], hasNextPage: false, hasPreviousPage: false}\<close> and sends no second
  request. \<open>getPluginParameters\<close> is this operation for the relation \<open>parameters\<close>;
  \<open>getPipelineDefaultParameters\<close>, \<open>getPipelinePipings\<close> and \<open>getPipelinePlugins\<close>
  are it for \<open>default_parameters\<close>, \<open>plugin_pipings\<close> and \<open>plugins\<close> once the
  pipelines url is known.
\<close>

theorem related_list_without_link:
  assumes "items c = it # rest"
    and "getLinkRelationUrls (OfItem it) listRelName = []"
    and "replies_collection nw (sent w)
           (get_request (StoreClient_request (self w)) u (id_params ident)) c"
  shows "outcome_of (StoreClient_getResourceRelatedListData nw u ident listRelName params w) =
           Inr \<lparr>data = DataList [], hasNextPage = Some False, hasPreviousPage = Some False\<rparr>
         \<and> requests_of (StoreClient_getResourceRelatedListData nw u ident listRelName params w) =
           sent w @ [get_request (StoreClient_request (self w)) u (id_params ident)]
         \<and> StoreClient_getPluginParameters nw ident params w =
             StoreClient_getResourceRelatedListData nw (UStr (storeQueryUrl (self w))) ident
               ''parameters'' params w
         \<and> (pipelinesQueryUrl (self w) \<noteq> [] \<longrightarrow>
               StoreClient_getPipelineDefaultParameters nw ident params w =
                 StoreClient_getResourceRelatedListData nw (UStr (pipelinesQueryUrl (self w))) ident
                   ''default_parameters'' params w
             \<and> StoreClient_getPipelinePipings nw ident params w =
                 StoreClient_getResourceRelatedListData nw (UStr (pipelinesQueryUrl (self w))) ident
                   ''plugin_pipings'' params w
             \<and> StoreClient_getPipelinePlugins nw ident params w =
                 StoreClient_getResourceRelatedListData nw (UStr (pipelinesQueryUrl (self w))) ident
                   ''plugins'' params w)"
  using relatedList_no_link [OF assms(3,1,2), of params]
  by (simp add: outcome_of_def requests_of_def empty_page_def StoreClient_getPluginParameters_def
      StoreClient_getPipelineDefaultParameters_def StoreClient_getPipelinePipings_def
      StoreClient_getPipelinePlugins_def andThen_def get_self_def)

text \<open>
  C4 at concrete data: the plugins of a pipeline whose item has no link.
\<close>

theorem related_list_without_link_witness:
  "outcome_of (StoreClient_getPipelinePlugins
       (scripted [ok (example_collection [] [item_without_links])]) 1 ArgNull (start store1))
     = Inr \<lparr>data = DataList [], hasNextPage = Some False, hasPreviousPage = Some False\<rparr>
   \<and> requests_of (StoreClient_getPipelinePlugins
       (scripted [ok (example_collection [] [item_without_links])]) 1 ArgNull (start store1))
     = [get_request (StoreClient_request store1) (UStr (pipelinesQueryUrl store1)) (id_params 1)]"
proof -
  let ?c = "example_collection [] [item_without_links]"
  have its: "items ?c = item_without_links # []"
    by (simp add: example_collection_def)
  have none: "getLinkRelationUrls (OfItem item_without_links) ''plugins'' = []"
    by (simp add: getLinkRelationUrls_def item_without_links_def)
  have answered: "replies_collection (scripted [ok ?c]) (sent (start store1))
          (get_request (StoreClient_request (self (start store1)))
             (UStr (pipelinesQueryUrl (self (start store1)))) (id_params 1)) ?c"
    by (simp add: replies_collection_def scripted_def ok_def start_def is_2xx_def)
  have st: "self (start store1) = store1" "sent (start store1) = []"
    "pipelinesQueryUrl store1 \<noteq> []"
    by (simp_all add: start_def store1_def)
  from related_list_without_link [OF its none answered, of ArgNull]
  show ?thesis
    by (simp add: st)
qed

text \<open>
  The claim as first stated fails: for a plugin whose item has no \<open>parameters\<close> link,
  \<open>getPluginParameters\<close> resolves to the empty page; it does not fail with
  \<open>ProtocolError\<close>.
\<close>

theorem missing_relation_gives_empty_page:
  "outcome_of (StoreClient_getPluginParameters
       (scripted [ok (example_collection [] [item_without_links])]) 1 ArgNull (start store0))
     = Inr \<lparr>data = DataList [], hasNextPage = Some False, hasPreviousPage = Some False\<rparr>
   \<and> outcome_of (StoreClient_getPluginParameters
       (scripted [ok (example_collection [] [item_without_links])]) 1 ArgNull (start store0))
     \<noteq> Inl ProtocolError"
proof -
  let ?c = "example_collection [] [item_without_links]"
  have "replies_collection (scripted [ok ?c]) (sent (start store0))
          (get_request (StoreClient_request (self (start store0)))
             (UStr (storeQueryUrl (self (start store0)))) (id_params 1)) ?c"
    by (simp add: replies_collection_def scripted_def ok_def start_def is_2xx_def)
  from relatedList_no_link [OF this, of item_without_links "[]" "''parameters''" ArgNull]
  show ?thesis
    by (simp add: StoreClient_getPluginParameters_def andThen_def get_self_def outcome_of_def
        example_collection_def item_without_links_def getLinkRelationUrls_def empty_page_def)
qed

text \<open>
  C5. For a decoded collection with any number of items, the list-shaped result of
  \<open>getDataFromCollection\<close> has \<open>hasNextPage\<close> true exactly when the collection has
  a link with relation \<open>next\<close>, and \<open>hasPreviousPage\<close> true exactly when it has a link
  with relation \<open>previous\<close>; the result always exists and holds one descriptor mapping
  per item.
\<close>

theorem hasNextPage_iff_next_link:
  "\<exists>r. getDataFromCollection (Some c) ''list'' = Inr r
       \<and> hasNextPage r = Some (''next'' \<in> rel ` set (links c))
       \<and> hasPreviousPage r = Some (''previous'' \<in> rel ` set (links c))
       \<and> data r = DataList (map getItemDescriptors (items c))"
  by (simp add: getDataFromCollection_def getLinkRelationUrls_empty_iff)

text \<open>
  C6 (as amended). Where an operation takes the url of one related resource out of the
  list that \<open>getLinkRelationUrls\<close> returns, the url used for the next request is the
  first one of the list, whatever urls come after it: \<open>getUser\<close> and \<open>updateUser\<close> of
  the store client for the relation \<open>user\<close>, \<open>_getResourceRelatedListData\<close> for its
  list relation, and \<open>createPluginInstance\<close> and \<open>createPipelineInstance\<close> of the
  client for the relation \<open>instances\<close> of the plugin or pipeline that the lookup
  resolved to.
\<close>

theorem first_related_url_is_followed:
  "(replies_collection nw (sent w)
      (get_request (StoreClient_request (self w)) (UStr (storeUrl (self w))) ArgNull) c
    \<and> getLinkRelationUrls (OfCollection c) ''user'' = u1 # us
    \<longrightarrow> requests_of (StoreClient_getUser nw w) =
          sent w @ [get_request (StoreClient_request (self w)) (UStr (storeUrl (self w))) ArgNull,
                    get_request (StoreClient_request (self w)) (UStr u1) ArgNull]
        \<and> requests_of (StoreClient_updateUser nw email password w) =
          sent w @ [get_request (StoreClient_request (self w)) (UStr (storeUrl (self w))) ArgNull,
                    put_request (StoreClient_request (self w)) (UStr u1)
                      (TemplateData [\<lparr>name = ''email'', val = email\<rparr>,
                                     \<lparr>name = ''password'', val = password\<rparr>])])
   \<and> (replies_collection nw (sent w)
        (get_request (StoreClient_request (self w)) u (id_params ident)) c
      \<and> items c = it # rest
      \<and> getLinkRelationUrls (OfItem it) listRelName = u1 # us
      \<longrightarrow> requests_of (StoreClient_getResourceRelatedListData nw u ident listRelName params w) =
            sent w @ [get_request (StoreClient_request (self w)) u (id_params ident),
                      get_request (StoreClient_request (self w)) (UStr u1) params])
   \<and> (Client_getPlugin nw ident t cw = (Inr plg, cw')
      \<and> res_collection plg = Some pc
      \<and> items pc = it # rest
      \<and> getLinkRelationUrls (OfItem it) ''instances'' = u1 # us
      \<longrightarrow> requests_of (Client_createPluginInstance nw ident d t cw) =
            sent cw' @ [post_request (resource_request (new_resource (UStr u1) (auth (self cw'))) t)
                          (UStr u1) (TemplateData (makeTemplate d)) None])
   \<and> (Client_getPipeline nw ident t cw = (Inr pip, cw')
      \<and> res_collection pip = Some pc
      \<and> items pc = it # rest
      \<and> getLinkRelationUrls (OfItem it) ''instances'' = u1 # us
      \<longrightarrow> requests_of (Client_createPipelineInstance nw ident d t cw) =
            sent cw' @ [post_request (resource_request (new_resource (UStr u1) (auth (self cw'))) t)
                          (UStr u1) (TemplateData (makeTemplate d)) None])"
proof (intro conjI impI)
  assume a: "replies_collection nw (sent w)
      (get_request (StoreClient_request (self w)) (UStr (storeUrl (self w))) ArgNull) c
    \<and> getLinkRelationUrls (OfCollection c) ''user'' = u1 # us"
  show "requests_of (StoreClient_getUser nw w) =
          sent w @ [get_request (StoreClient_request (self w)) (UStr (storeUrl (self w))) ArgNull,
                    get_request (StoreClient_request (self w)) (UStr u1) ArgNull]"
    using a getUser_requests [of nw w c] by simp
  show "requests_of (StoreClient_updateUser nw email password w) =
          sent w @ [get_request (StoreClient_request (self w)) (UStr (storeUrl (self w))) ArgNull,
                    put_request (StoreClient_request (self w)) (UStr u1)
                      (TemplateData [\<lparr>name = ''email'', val = email\<rparr>,
                                     \<lparr>name = ''password'', val = password\<rparr>])]"
    using a updateUser_requests [of nw w c] by simp
next
  assume "replies_collection nw (sent w)
        (get_request (StoreClient_request (self w)) u (id_params ident)) c
      \<and> items c = it # rest
      \<and> getLinkRelationUrls (OfItem it) listRelName = u1 # us"
  then show "requests_of (StoreClient_getResourceRelatedListData nw u ident listRelName params w) =
            sent w @ [get_request (StoreClient_request (self w)) u (id_params ident),
                      get_request (StoreClient_request (self w)) (UStr u1) params]"
    using relatedList_requests by blast
next
  assume a: "Client_getPlugin nw ident t cw = (Inr plg, cw')
      \<and> res_collection plg = Some pc
      \<and> items pc = it # rest
      \<and> getLinkRelationUrls (OfItem it) ''instances'' = u1 # us"
  then show "requests_of (Client_createPluginInstance nw ident d t cw) =
            sent cw' @ [post_request (resource_request (new_resource (UStr u1) (auth (self cw'))) t)
                          (UStr u1) (TemplateData (makeTemplate d)) None]"
    using createPluginInstance_requests [of nw ident t cw plg cw' pc it rest d] by simp
next
  assume a: "Client_getPipeline nw ident t cw = (Inr pip, cw')
      \<and> res_collection pip = Some pc
      \<and> items pc = it # rest
      \<and> getLinkRelationUrls (OfItem it) ''instances'' = u1 # us"
  then show "requests_of (Client_createPipelineInstance nw ident d t cw) =
            sent cw' @ [post_request (resource_request (new_resource (UStr u1) (auth (self cw'))) t)
                          (UStr u1) (TemplateData (makeTemplate d)) None]"
    using createPipelineInstance_requests [of nw ident t cw pip cw' pc it rest d] by simp
qed

text \<open>
  C6 at concrete data: with two urls for the relation, the request goes to the first.
\<close>

theorem first_related_url_is_followed_witness:
  "requests_of (StoreClient_getUser
       (scripted [ok (example_collection two_user_links []), ok (example_collection [] [plugin_item])])
       (start store0))
     = [get_request (StoreClient_request store0) (UStr ''http://localhost:8010/api/v1/'') ArgNull,
        get_request (StoreClient_request store0) (UStr ''http://localhost:8010/api/v1/users/1/'') ArgNull]
   \<and> requests_of (StoreClient_getResourceRelatedListData
       (scripted [ok (example_collection [] [plugin_item]), ok (example_collection [] [])])
       (UStr ''http://localhost:8010/api/v1/search/'') 1 ''parameters'' ArgNull (start store0))
     = [get_request (StoreClient_request store0) (UStr ''http://localhost:8010/api/v1/search/'') (id_params 1),
        get_request (StoreClient_request store0)
          (UStr ''http://localhost:8000/api/v1/plugins/1/parameters/'') ArgNull]
   \<and> requests_of (Client_createPluginInstance
       (scripted [ok (example_collection [] [plugin_item]), ok (example_collection [] [])])
       1 [(''title'', JStr ''run'')] (ArgNum 30000) (start client1))
     = [list_get_request client1 (UArr [''http://localhost:8000/api/v1/plugins/'']) (id_params 1) (ArgNum 30000),
        post_request
          (resource_request
             (new_resource (UStr ''http://localhost:8000/api/v1/plugins/1/instances/'') (auth client1))
             (ArgNum 30000))
          (UStr ''http://localhost:8000/api/v1/plugins/1/instances/'')
          (TemplateData (makeTemplate [(''title'', JStr ''run'')])) None]
   \<and> requests_of (Client_createPipelineInstance
       (scripted [ok (example_collection [] [pipeline_item]), ok (example_collection [] [])])
       1 [(''title'', JStr ''run'')] (ArgNum 30000) (start client1))
     = [list_get_request client1 (UArr [''http://localhost:8000/api/v1/pipelines/'']) (id_params 1) (ArgNum 30000),
        post_request
          (resource_request
             (new_resource (UStr ''http://localhost:8000/api/v1/pipelines/1/instances/'') (auth client1))
             (ArgNum 30000))
          (UStr ''http://localhost:8000/api/v1/pipelines/1/instances/'')
          (TemplateData (makeTemplate [(''title'', JStr ''run'')])) None]"
proof -
  let ?nu = "scripted [ok (example_collection two_user_links []), ok (example_collection [] [plugin_item])]"
  let ?np = "scripted [ok (example_collection [] [plugin_item]), ok (example_collection [] [])]"
  let ?nq = "scripted [ok (example_collection [] [pipeline_item]), ok (example_collection [] [])]"
  let ?plg = "\<lparr>res_url = UStr (item_href plugin_item), res_auth = auth client1,
               res_collection = Some (example_collection [] [plugin_item]),
               res_searchParams = ArgNull\<rparr>"
  let ?pip = "\<lparr>res_url = UStr (item_href pipeline_item), res_auth = auth client1,
               res_collection = Some (example_collection [] [pipeline_item]),
               res_searchParams = ArgNull\<rparr>"
  have user: "replies_collection ?nu (sent (start store0)) rq (example_collection two_user_links [])" for rq
    by (simp add: replies_collection_def scripted_def ok_def start_def is_2xx_def)
  have first: "replies_collection ?np (sent (start ob)) rq (example_collection [] [plugin_item])"
    for ob :: 'o and rq
    by (simp add: replies_collection_def scripted_def ok_def start_def is_2xx_def)
  have firstq: "replies_collection ?nq (sent (start client1)) rq (example_collection [] [pipeline_item])"
    for rq
    by (simp add: replies_collection_def scripted_def ok_def start_def is_2xx_def)
  have users: "getLinkRelationUrls (OfCollection (example_collection two_user_links [])) ''user'' =
      ''http://localhost:8010/api/v1/users/1/'' # [''http://localhost:8010/api/v1/users/2/'']"
    by (simp add: getLinkRelationUrls_def example_collection_def two_user_links_def)
  have its: "items (example_collection [] [plugin_item]) = plugin_item # []"
    by (simp add: example_collection_def)
  have itsq: "items (example_collection [] [pipeline_item]) = pipeline_item # []"
    by (simp add: example_collection_def)
  have pars: "getLinkRelationUrls (OfItem plugin_item) ''parameters'' =
      ''http://localhost:8000/api/v1/plugins/1/parameters/'' #
      [''http://localhost:8000/api/v1/plugins/1/parameters2/'']"
    by (simp add: getLinkRelationUrls_def plugin_item_def)
  have insts: "getLinkRelationUrls (OfItem plugin_item) ''instances'' =
      ''http://localhost:8000/api/v1/plugins/1/instances/'' #
      [''http://localhost:8000/api/v1/plugins/1/instances2/'']"
    by (simp add: getLinkRelationUrls_def plugin_item_def)
  have instsq: "getLinkRelationUrls (OfItem pipeline_item) ''instances'' =
      ''http://localhost:8000/api/v1/pipelines/1/instances/'' #
      [''http://localhost:8000/api/v1/pipelines/1/instances2/'']"
    by (simp add: getLinkRelationUrls_def pipeline_item_def)
  have st: "self (start store0) = store0" "sent (start store0) = []"
    "self (start client1) = client1" "sent (start client1) = []"
    "storeUrl store0 = ''http://localhost:8010/api/v1/''"
    "pluginsUrl client1 = UArr [''http://localhost:8000/api/v1/plugins/'']"
    "pipelinesUrl client1 = UArr [''http://localhost:8000/api/v1/pipelines/'']"
    by (simp_all add: start_def store0_def StoreClient_constructor_def client1_def client0_def)
  have truthy: "url_truthy (pluginsUrl (self (start client1)))"
    "url_truthy (pipelinesUrl (self (start client1)))"
    by (simp_all add: st)
  have found: "ListResource_getItem
      (fetched (new_resource (pluginsUrl (self (start client1))) (auth (self (start client1))))
         (example_collection [] [plugin_item]) (id_params 1)) 1 = Inr ?plg"
    by (simp add: ListResource_getItem_def ListResource_getItems_def resource_id_is_def
        fetched_def new_resource_def example_collection_def plugin_item_def getItemDescriptors_def
        start_def)
  have foundq: "ListResource_getItem
      (fetched (new_resource (pipelinesUrl (self (start client1))) (auth (self (start client1))))
         (example_collection [] [pipeline_item]) (id_params 1)) 1 = Inr ?pip"
    by (simp add: ListResource_getItem_def ListResource_getItems_def resource_id_is_def
        fetched_def new_resource_def example_collection_def pipeline_item_def getItemDescriptors_def
        start_def)
  have pc: "res_collection ?plg = Some (example_collection [] [plugin_item])"
    "res_collection ?pip = Some (example_collection [] [pipeline_item])"
    by simp_all
  note plugin = Client_getPlugin_found [OF truthy(1) first found, where t = "ArgNum 30000"]
  note pipeline = Client_getPipeline_found [OF truthy(2) firstq foundq, where t = "ArgNum 30000"]
  note t = first_related_url_is_followed [where email = JNull and password = JNull]
  from t [where nw = ?nu and w = "start store0" and c = "example_collection two_user_links []",
          THEN conjunct1, rule_format, OF conjI [OF user users]]
    t [where nw = ?np and w = "start store0" and c = "example_collection [] [plugin_item]"
          and u = "UStr ''http://localhost:8010/api/v1/search/''" and ident = 1
          and listRelName = "''parameters''" and params = ArgNull,
          THEN conjunct2, THEN conjunct1, rule_format, OF conjI [OF first conjI [OF its pars]]]
    t [where d = "[(''title'', JStr ''run'')]",
          THEN conjunct2, THEN conjunct2, THEN conjunct1, rule_format,
          OF conjI [OF plugin conjI [OF pc(1) conjI [OF its insts]]]]
    t [where d = "[(''title'', JStr ''run'')]",
          THEN conjunct2, THEN conjunct2, THEN conjunct2, rule_format,
          OF conjI [OF pipeline conjI [OF pc(2) conjI [OF itsq instsq]]]]
  show ?thesis
    by (simp add: st)
qed

text \<open>
  The claim as first stated fails where the urls of a relation are kept as they come: a
  store collection names the pipelines twice, and \<open>getPipeline(7)\<close>, which discovers
  the pipelines url on the way, sends its lookup to both urls joined by a comma,
  followed by \<open>search/\<close>, not to the first one.
\<close>

theorem pipelines_urls_are_joined:
  "getLinkRelationUrls (OfCollection (example_collection two_pipelines_links [])) ''pipelines'' =
     [''http://localhost:8010/api/v1/pipelines/'', ''http://localhost:8010/api/v1/pipelines2/'']
   \<and> requests_of (StoreClient_getPipeline
       (scripted [ok (example_collection two_pipelines_links []), ok (example_collection [] [])])
       7 (start store0))
     = [get_request (StoreClient_request store0) (UStr ''http://localhost:8010/api/v1/'') ArgNull,
        get_request (StoreClient_request store0)
          (UStr ''http://localhost:8010/api/v1/pipelines/,http://localhost:8010/api/v1/pipelines2/search/'')
          (id_params 7)]"
proof -
  let ?n = "scripted [ok (example_collection two_pipelines_links []), ok (example_collection [] [])]"
  have unset: "pipelinesQueryUrl (self (start store0)) = []"
    by (simp add: start_def store0_def StoreClient_constructor_def)
  have first: "replies_collection ?n (sent (start store0))
      (get_request (StoreClient_request (self (start store0)))
         (UStr (storeUrl (self (start store0)))) ArgNull)
      (example_collection two_pipelines_links [])"
    by (simp add: replies_collection_def scripted_def ok_def start_def is_2xx_def)
  have urls: "getLinkRelationUrls (OfCollection (example_collection two_pipelines_links [])) ''pipelines'' =
     [''http://localhost:8010/api/v1/pipelines/'', ''http://localhost:8010/api/v1/pipelines2/'']"
    by (simp add: getLinkRelationUrls_def example_collection_def two_pipelines_links_def)
  from getPipeline_discovery_requests [OF unset first, of 7]
  have "requests_of (StoreClient_getPipeline ?n 7 (start store0)) =
      [get_request (StoreClient_request store0) (UStr ''http://localhost:8010/api/v1/'') ArgNull,
       get_request (StoreClient_request store0)
         (UStr (join_comma [''http://localhost:8010/api/v1/pipelines/'',
                            ''http://localhost:8010/api/v1/pipelines2/''] @ ''search/''))
         (id_params 7)]"
    by (simp add: urls start_def store0_def StoreClient_constructor_def)
  then show ?thesis
    by (simp add: urls)
qed

text \<open>
  C7. When the request of a resource operation (\<open>get\<close> of a list or an item,
  \<open>post\<close>, \<open>put\<close>, \<open>delete\<close>) runs into a timeout, a network fault or a response
  outside 2xx, the operation ends with a \<open>RequestException\<close> (for a timeout, the one
  that says so) and the resource is what it was before, its collection included. More
  generally an operation that ends with any error leaves the resource as it was: its
  state changes only when the operation succeeds.
\<close>

theorem failed_operation_keeps_resource:
  "(request_fails nw (sent w) (get_request (resource_request (self w) t) (res_url (self w)) sp)
      \<longrightarrow> is_request_failure (outcome_of (ListResource_get nw sp t w))
        \<and> object_after (ListResource_get nw sp t w) = self w)
   \<and> (request_fails nw (sent w) (get_request (resource_request (self w) t) (res_url (self w)) ArgNull)
      \<longrightarrow> is_request_failure (outcome_of (ItemResource_get nw t w))
        \<and> object_after (ItemResource_get nw t w) = self w)
   \<and> (request_fails nw (sent w)
        (post_request (resource_request (self w) t) (res_url (self w))
           (if fo = None then TemplateData (makeTemplate d) else PlainData d) fo)
      \<longrightarrow> is_request_failure (outcome_of (ListResource_post nw d fo t w))
        \<and> object_after (ListResource_post nw d fo t w) = self w)
   \<and> (request_fails nw (sent w)
        (put_request (resource_request (self w) t) (res_url (self w)) (TemplateData (makeTemplate d)))
      \<longrightarrow> is_request_failure (outcome_of (ItemResource_put nw d t w))
        \<and> object_after (ItemResource_put nw d t w) = self w)
   \<and> (request_fails nw (sent w) (delete_request (resource_request (self w) t) (res_url (self w)))
      \<longrightarrow> is_request_failure (outcome_of (ItemResource_delete nw t w))
        \<and> object_after (ItemResource_delete nw t w) = self w)
   \<and> (nw (sent w) (get_request (resource_request (self w) t) (res_url (self w)) sp) = Timeout
      \<longrightarrow> outcome_of (ListResource_get nw sp t w) =
            Inl (RequestException (Text ''timeout'')
                   (Some (get_request (resource_request (self w) t) (res_url (self w)) sp)) None))
   \<and> (outcome_of (ListResource_get nw sp t w) = Inl e
      \<longrightarrow> object_after (ListResource_get nw sp t w) = self w)
   \<and> (outcome_of (ItemResource_get nw t w) = Inl e
      \<longrightarrow> object_after (ItemResource_get nw t w) = self w)
   \<and> (outcome_of (ListResource_post nw d fo t w) = Inl e
      \<longrightarrow> object_after (ListResource_post nw d fo t w) = self w)
   \<and> (outcome_of (ItemResource_put nw d t w) = Inl e
      \<longrightarrow> object_after (ItemResource_put nw d t w) = self w)
   \<and> object_after (ItemResource_delete nw t w) = self w"
proof -
  have del: "object_after (ItemResource_delete nw t w) = self w"
    by (simp add: ItemResource_delete_def andThen_get_self object_after_def
        andThen_resolve_world [where g = "\<lambda>resp. ()"] Request_delete_def transport_self)
  have delf: "is_request_failure (outcome_of (ItemResource_delete nw t w))"
    if "request_fails nw (sent w) (delete_request (resource_request (self w) t) (res_url (self w)))"
    using transport_fails [OF that]
    by (auto simp: ItemResource_delete_def andThen_get_self Request_delete_def
        andThen_Inl [where m = "transport nw rq" for rq] is_request_failure_def outcome_of_def)
  show ?thesis
    using then_store_collection_failure [of nw w] then_store_collection_error [of nw _ _ w e]
      then_store_collection_timeout [of nw w] del delf
    by (simp add: ListResource_get_def ItemResource_get_def ListResource_post_def
        ItemResource_put_def andThen_get_self Request_get_def Request_post_def Request_put_def)
qed

text \<open>
  C7 at concrete data: a timeout, a network fault and a 404 on a resource that holds a
  collection.
\<close>

theorem failed_operation_keeps_resource_witness:
  "is_request_failure (outcome_of
      (ListResource_get (scripted [Timeout]) ArgNull (ArgNum 30000) (start ready_resource)))
   \<and> object_after
      (ListResource_get (scripted [Timeout]) ArgNull (ArgNum 30000) (start ready_resource))
     = ready_resource
   \<and> is_request_failure (outcome_of
      (ItemResource_get (scripted [NetworkFault]) (ArgNum 30000) (start ready_resource)))
   \<and> object_after (ItemResource_get (scripted [NetworkFault]) (ArgNum 30000) (start ready_resource))
     = ready_resource
   \<and> is_request_failure (outcome_of
      (ListResource_post (scripted [not_found_reply]) [(''title'', JStr ''T'')] None (ArgNum 30000)
         (start ready_resource)))
   \<and> object_after
      (ListResource_post (scripted [not_found_reply]) [(''title'', JStr ''T'')] None (ArgNum 30000)
         (start ready_resource))
     = ready_resource
   \<and> is_request_failure (outcome_of
      (ItemResource_put (scripted [Timeout]) [(''title'', JStr ''T'')] (ArgNum 30000)
         (start ready_resource)))
   \<and> object_after
      (ItemResource_put (scripted [Timeout]) [(''title'', JStr ''T'')] (ArgNum 30000)
         (start ready_resource))
     = ready_resource
   \<and> is_request_failure (outcome_of
      (ItemResource_delete (scripted [not_found_reply]) (ArgNum 30000) (start ready_resource)))
   \<and> object_after
      (ItemResource_delete (scripted [not_found_reply]) (ArgNum 30000) (start ready_resource))
     = ready_resource
   \<and> outcome_of
      (ListResource_get (scripted [Timeout]) ArgNull (ArgNum 30000) (start ready_resource))
     = Inl (RequestException (Text ''timeout'')
         (Some (get_request (resource_request ready_resource (ArgNum 30000))
                  (res_url ready_resource) ArgNull)) None)"
proof -
  have fails: "request_fails (scripted [Timeout]) (sent (start ready_resource)) rq"
    "request_fails (scripted [NetworkFault]) (sent (start ready_resource)) rq"
    "request_fails (scripted [not_found_reply]) (sent (start ready_resource)) rq" for rq
    by (simp_all add: request_fails_def scripted_def start_def not_found_reply_def is_2xx_def)
  have timeout: "scripted [Timeout] (sent (start ready_resource)) rq = Timeout" for rq
    by (simp add: scripted_def start_def)
  have st: "self (start ready_resource) = ready_resource"
    by (simp add: start_def)
  have ends: "outcome_of (ItemResource_get (scripted [NetworkFault]) (ArgNum 30000) (start ready_resource))
      = Inl (RequestException (Text ''network error'')
          (Some (get_request (resource_request ready_resource (ArgNum 30000))
                   (res_url ready_resource) ArgNull)) None)"
    "outcome_of (ListResource_post (scripted [Timeout]) [(''title'', JStr ''T'')] None (ArgNum 30000)
         (start ready_resource))
      = Inl (RequestException (Text ''timeout'')
          (Some (post_request (resource_request ready_resource (ArgNum 30000))
                   (res_url ready_resource) (TemplateData (makeTemplate [(''title'', JStr ''T'')]))
                   None)) None)"
    "outcome_of (ItemResource_put (scripted [Timeout]) [(''title'', JStr ''T'')] (ArgNum 30000)
         (start ready_resource))
      = Inl (RequestException (Text ''timeout'')
          (Some (put_request (resource_request ready_resource (ArgNum 30000))
                   (res_url ready_resource) (TemplateData (makeTemplate [(''title'', JStr ''T'')]))))
          None)"
    by (simp_all add: ItemResource_get_def ListResource_post_def ItemResource_put_def
        get_self_def Request_get_def Request_post_def Request_put_def andThen_def
        transport_def scripted_def start_def outcome_of_def)
  note t = failed_operation_keeps_resource [where w = "start ready_resource" and t = "ArgNum 30000"]
  note c2 = conjunct2
  from t [where nw = "scripted [Timeout]" and sp = ArgNull, THEN conjunct1]
    t [where nw = "scripted [NetworkFault]", THEN c2, THEN conjunct1]
    t [where nw = "scripted [not_found_reply]" and d = "[(''title'', JStr ''T'')]" and fo = None,
       THEN c2, THEN c2, THEN conjunct1]
    t [where nw = "scripted [Timeout]" and d = "[(''title'', JStr ''T'')]",
       THEN c2, THEN c2, THEN c2, THEN conjunct1]
    t [where nw = "scripted [not_found_reply]", THEN c2, THEN c2, THEN c2, THEN c2, THEN conjunct1]
    t [where nw = "scripted [Timeout]" and sp = ArgNull,
       THEN c2, THEN c2, THEN c2, THEN c2, THEN c2, THEN conjunct1]
    t [where nw = "scripted [Timeout]" and sp = ArgNull
       and e = "RequestException (Text ''timeout'')
         (Some (get_request (resource_request ready_resource (ArgNum 30000))
                  (res_url ready_resource) ArgNull)) None",
       THEN c2, THEN c2, THEN c2, THEN c2, THEN c2, THEN c2, THEN conjunct1]
    t [where nw = "scripted [NetworkFault]"
       and e = "RequestException (Text ''network error'')
          (Some (get_request (resource_request ready_resource (ArgNum 30000))
                   (res_url ready_resource) ArgNull)) None",
       THEN c2, THEN c2, THEN c2, THEN c2, THEN c2, THEN c2, THEN c2, THEN conjunct1]
    t [where nw = "scripted [Timeout]" and d = "[(''title'', JStr ''T'')]" and fo = None
       and e = "RequestException (Text ''timeout'')
          (Some (post_request (resource_request ready_resource (ArgNum 30000))
                   (res_url ready_resource) (TemplateData (makeTemplate [(''title'', JStr ''T'')]))
                   None)) None",
       THEN c2, THEN c2, THEN c2, THEN c2, THEN c2, THEN c2, THEN c2, THEN c2, THEN conjunct1]
    t [where nw = "scripted [Timeout]" and d = "[(''title'', JStr ''T'')]"
       and e = "RequestException (Text ''timeout'')
          (Some (put_request (resource_request ready_resource (ArgNum 30000))
                   (res_url ready_resource) (TemplateData (makeTemplate [(''title'', JStr ''T'')]))))
          None",
       THEN c2, THEN c2, THEN c2, THEN c2, THEN c2, THEN c2, THEN c2, THEN c2, THEN c2,
       THEN conjunct1]
  show ?thesis
    by (simp only: fails timeout st ends simp_thms)
qed

text \<open>
  C8. For each of the getters \<open>getFiles\<close>, \<open>getPlugins\<close>, \<open>getPluginInstances\<close>,
  \<open>getPipelines\<close>, \<open>getPipelineInstances\<close>, \<open>getTags\<close>, \<open>getUploadedFiles\<close> and
  \<open>getUser\<close>: when its url is empty, the first request it sends is the feed-list
  fetch of \<open>setUrls\<close>, and if that fetch succeeds the url becomes the array of urls of
  its relation; when its url is set, the call sends one GET to that url and leaves the
  client as it was; and in every case each url that was set before the call has the same
  value after it.
\<close>

theorem getters_discover_once:
  "(\<not> url_truthy (getter_url g (self w)) \<longrightarrow>
      take (Suc (length (sent w))) (requests_of (run_getter nw g sp t w)) =
        sent w @ [discovery_request (self w)])
   \<and> (\<not> url_truthy (getter_url g (self w))
       \<and> replies_collection nw (sent w) (discovery_request (self w)) c \<longrightarrow>
      getter_url g (object_after (run_getter nw g sp t w)) =
        UArr (getLinkRelationUrls (OfCollection c) (getter_rel g)))
   \<and> (url_truthy (getter_url g (self w)) \<longrightarrow>
      object_after (run_getter nw g sp t w) = self w
      \<and> (\<exists>rq. requests_of (run_getter nw g sp t w) = sent w @ [rq]
             \<and> req_url rq = getter_url g (self w) \<and> req_method rq = GET))
   \<and> urls_kept (self w) (object_after (run_getter nw g sp t w))"
proof -
  from run_getter_fetchRes [of nw g sp t w] obtain cls sp' where
    r: "run_getter nw g sp t w = Client_fetchRes nw (getter_url g (self w)) cls sp' t w"
    by blast
  show ?thesis
    unfolding r
    using Client_fetchRes_discovers_first [of "getter_url g (self w)" w nw cls sp' t]
      Client_fetchRes_populates [of "getter_url g (self w)" nw w c cls sp' t]
      Client_fetchRes_reuse [of "getter_url g (self w)" nw cls sp' t w]
      Client_fetchRes_kept [of w nw "getter_url g (self w)" cls sp' t]
      set_discovered_field [of g "self w" c]
    by simp
qed

text \<open>
  C8 at concrete data: \<open>getPlugins\<close> discovers and fills its url and leaves the url of the
  files alone; \<open>getFiles\<close> changes nothing.
\<close>

theorem getters_discover_once_witness:
  "take 1 (requests_of (run_getter (scripted [ok feeds_collection, ok (example_collection [] [])])
       GetPlugins ArgNull (ArgNum 30000) (start client_half)))
     = [discovery_request client_half]
   \<and> pluginsUrl (object_after (run_getter (scripted [ok feeds_collection, ok (example_collection [] [])])
       GetPlugins ArgNull (ArgNum 30000) (start client_half)))
     = UArr [''http://localhost:8000/api/v1/plugins/'']
   \<and> filesUrl (object_after (run_getter (scripted [ok feeds_collection, ok (example_collection [] [])])
       GetPlugins ArgNull (ArgNum 30000) (start client_half)))
     = UArr [''http://localhost:8000/api/v1/myfiles/'']
   \<and> object_after (run_getter (scripted [ok feeds_collection, ok (example_collection [] [])])
       GetFiles ArgNull (ArgNum 30000) (start client_half))
     = client_half"
proof -
  let ?nw = "scripted [ok feeds_collection, ok (example_collection [] [])]"
  have answered: "replies_collection ?nw [] rq feeds_collection" for rq
    by (simp add: replies_collection_def scripted_def ok_def is_2xx_def)
  have st: "self (start client_half) = client_half" "sent (start client_half) = []"
    "\<not> url_truthy (pluginsUrl client_half)"
    "url_truthy (filesUrl client_half)"
    "filesUrl client_half = UArr [''http://localhost:8000/api/v1/myfiles/'']"
    by (simp_all add: start_def client_half_def client0_def)
  have rels: "getLinkRelationUrls (OfCollection feeds_collection) ''plugins'' =
      [''http://localhost:8000/api/v1/plugins/'']"
    by (simp add: getLinkRelationUrls_def feeds_collection_def example_collection_def)
  from getters_discover_once [where g = GetPlugins and w = "start client_half" and nw = ?nw
      and sp = ArgNull and t = "ArgNum 30000" and c = feeds_collection]
    getters_discover_once [where g = GetFiles and w = "start client_half" and nw = ?nw
      and sp = ArgNull and t = "ArgNum 30000" and c = feeds_collection]
  show ?thesis
    by (simp add: st answered rels urls_kept_def)
qed



text \<open>
  C10 (as amended). When the lookup of \<open>modifyPlugin(id, publicRepo, newOwner)\<close> finds
  an item, the PUT goes to the item's \<open>href\<close> and its data object has \<open>public_repo\<close>
  set to \<open>publicRepo\<close> if that is not empty and to the value of the item's (first)
  \<open>public_repo\<close> descriptor otherwise, followed by \<open>owner\<close> exactly when \<open>newOwner\<close> is
  not empty, whatever \<open>publicRepo\<close> is. With the client's Collection+JSON content type
  the body is the template of this object: it carries \<open>public_repo\<close> unless the value
  is \<open>null\<close> or \<open>undefined\<close>, which \<open>makeTemplate\<close> leaves out, and \<open>owner\<close> as the
  object does. With another content type the body is the object itself.
\<close>

theorem modifyPlugin_keeps_public_repo:
  assumes "replies_collection nw (sent w)
             (get_request (StoreClient_request (self w)) (UStr (storeQueryUrl (self w)))
                (id_params ident)) c"
    and "items c = it # rest"
    and "publicRepo = [] \<longrightarrow>
           filter (\<lambda>d. name d = ''public_repo'') (item_data it) = dsc # others"
    and "pr = (if publicRepo = [] then val dsc else JStr publicRepo)"
  shows "requests_of (StoreClient_modifyPlugin nw ident publicRepo newOwner w) =
           sent w @ [get_request (StoreClient_request (self w)) (UStr (storeQueryUrl (self w)))
                       (id_params ident),
                     put_request (StoreClient_request (self w)) (UStr (item_href it))
                       (write_body (self w)
                          ((''public_repo'', pr) #
                           (if newOwner = [] then [] else [(''owner'', JStr newOwner)])))]
         \<and> (contentType_s (self w) = cj_type \<longrightarrow>
              write_body (self w)
                ((''public_repo'', pr) #
                 (if newOwner = [] then [] else [(''owner'', JStr newOwner)])) =
              TemplateData
                ((if pr = JNull \<or> pr = JUndefined then []
                  else [\<lparr>name = ''public_repo'', val = pr\<rparr>]) @
                 (if newOwner = [] then [] else [\<lparr>name = ''owner'', val = JStr newOwner\<rparr>])))
         \<and> (contentType_s (self w) \<noteq> cj_type \<longrightarrow>
              write_body (self w)
                ((''public_repo'', pr) #
                 (if newOwner = [] then [] else [(''owner'', JStr newOwner)])) =
              PlainData ((''public_repo'', pr) #
                 (if newOwner = [] then [] else [(''owner'', JStr newOwner)])))"
  using modifyPlugin_requests [OF assms(1,2) modifyPlugin_data_chosen [OF assms(3)]] assms(4)
  by (simp add: write_body_def makeTemplate_def)

text \<open>
  C10 at concrete data: the repository kept or given, with and without a new owner.
\<close>

theorem modifyPlugin_keeps_public_repo_witness:
  "requests_of (StoreClient_modifyPlugin
       (scripted [ok (example_collection [] [plugin_item]), ok (example_collection [] [plugin_item])])
       1 [] ''alice'' (start store0))
     = [get_request (StoreClient_request store0) (UStr ''http://localhost:8010/api/v1/search/'')
          (id_params 1),
        put_request (StoreClient_request store0) (UStr ''http://localhost:8000/api/v1/plugins/1/'')
          (TemplateData [\<lparr>name = ''public_repo'', val = JStr ''https://github.com/FNNDSC/pl-simplefsapp''\<rparr>,
                         \<lparr>name = ''owner'', val = JStr ''alice''\<rparr>])]
   \<and> requests_of (StoreClient_modifyPlugin
       (scripted [ok (example_collection [] [plugin_item]), ok (example_collection [] [plugin_item])])
       1 [] [] (start store0))
     = [get_request (StoreClient_request store0) (UStr ''http://localhost:8010/api/v1/search/'')
          (id_params 1),
        put_request (StoreClient_request store0) (UStr ''http://localhost:8000/api/v1/plugins/1/'')
          (TemplateData [\<lparr>name = ''public_repo'', val = JStr ''https://github.com/FNNDSC/pl-simplefsapp''\<rparr>])]
   \<and> requests_of (StoreClient_modifyPlugin
       (scripted [ok (example_collection [] [plugin_item]), ok (example_collection [] [plugin_item])])
       1 ''https://github.com/FNNDSC/pl-new'' [] (start store0))
     = [get_request (StoreClient_request store0) (UStr ''http://localhost:8010/api/v1/search/'')
          (id_params 1),
        put_request (StoreClient_request store0) (UStr ''http://localhost:8000/api/v1/plugins/1/'')
          (TemplateData [\<lparr>name = ''public_repo'', val = JStr ''https://github.com/FNNDSC/pl-new''\<rparr>])]
   \<and> requests_of (StoreClient_modifyPlugin
       (scripted [ok (example_collection [] [plugin_item]), ok (example_collection [] [plugin_item])])
       1 ''https://github.com/FNNDSC/pl-new'' ''alice'' (start store0))
     = [get_request (StoreClient_request store0) (UStr ''http://localhost:8010/api/v1/search/'')
          (id_params 1),
        put_request (StoreClient_request store0) (UStr ''http://localhost:8000/api/v1/plugins/1/'')
          (TemplateData [\<lparr>name = ''public_repo'', val = JStr ''https://github.com/FNNDSC/pl-new''\<rparr>,
                         \<lparr>name = ''owner'', val = JStr ''alice''\<rparr>])]"
proof -
  let ?nw = "scripted [ok (example_collection [] [plugin_item]), ok (example_collection [] [plugin_item])]"
  let ?d = "\<lparr>name = ''public_repo'', val = JStr ''https://github.com/FNNDSC/pl-simplefsapp''\<rparr>"
  have answered: "replies_collection ?nw (sent (start store0)) rq (example_collection [] [plugin_item])" for rq
    by (simp add: replies_collection_def scripted_def ok_def start_def is_2xx_def)
  have its: "items (example_collection [] [plugin_item]) = plugin_item # []"
    by (simp add: example_collection_def)
  have repo: "given = [] \<longrightarrow> filter (\<lambda>d. name d = ''public_repo'') (item_data plugin_item) = ?d # []"
    for given :: string
    by (simp add: plugin_item_def)
  have st: "self (start store0) = store0" "sent (start store0) = []"
    "storeQueryUrl store0 = ''http://localhost:8010/api/v1/search/''"
    "contentType_s store0 = cj_type"
    "item_href plugin_item = ''http://localhost:8000/api/v1/plugins/1/''"
    by (simp_all add: start_def store0_def StoreClient_constructor_def plugin_item_def)
  from modifyPlugin_keeps_public_repo [OF answered its repo refl,
      where publicRepo = "[]" and newOwner = "''alice''"]
    modifyPlugin_keeps_public_repo [OF answered its repo refl,
      where publicRepo = "[]" and newOwner = "[]"]
    modifyPlugin_keeps_public_repo [OF answered its repo refl,
      where publicRepo = "''https://github.com/FNNDSC/pl-new''" and newOwner = "[]"]
    modifyPlugin_keeps_public_repo [OF answered its repo refl,
      where publicRepo = "''https://github.com/FNNDSC/pl-new''" and newOwner = "''alice''"]
  show ?thesis
    by (simp add: st)
qed

text \<open>
  The claim as first stated fails for an item whose \<open>public_repo\<close> is \<open>null\<close>: with
  the client's Collection+JSON content type, the body that \<open>modifyPlugin(1)\<close> puts is
  the empty template, with no \<open>public_repo\<close> field in it.
\<close>

theorem null_public_repo_is_left_out:
  "descriptor_value null_repo_item ''public_repo'' = Inr JNull
   \<and> requests_of (StoreClient_modifyPlugin
       (scripted [ok (example_collection [] [null_repo_item]),
                  ok (example_collection [] [null_repo_item])])
       1 [] [] (start store0))
     = [get_request (StoreClient_request store0) (UStr ''http://localhost:8010/api/v1/search/'')
          (id_params 1),
        put_request (StoreClient_request store0) (UStr ''http://localhost:8010/api/v1/1/'')
          (TemplateData [])]"
proof -
  let ?nw = "scripted [ok (example_collection [] [null_repo_item]),
                       ok (example_collection [] [null_repo_item])]"
  have answered: "replies_collection ?nw (sent (start store0)) rq (example_collection [] [null_repo_item])"
    for rq
    by (simp add: replies_collection_def scripted_def ok_def start_def is_2xx_def)
  have its: "items (example_collection [] [null_repo_item]) = null_repo_item # []"
    by (simp add: example_collection_def)
  have chosen: "modifyPlugin_data null_repo_item [] [] = Inr [(''public_repo'', JNull)]"
    by (simp add: modifyPlugin_data_def descriptor_value_def null_repo_item_def)
  have st: "self (start store0) = store0" "sent (start store0) = []"
    "storeQueryUrl store0 = ''http://localhost:8010/api/v1/search/''"
    "contentType_s store0 = cj_type"
    "item_href null_repo_item = ''http://localhost:8010/api/v1/1/''"
    by (simp_all add: start_def store0_def StoreClient_constructor_def null_repo_item_def)
  from modifyPlugin_requests [OF answered its chosen]
  show ?thesis
    by (simp add: st write_body_def makeTemplate_def descriptor_value_def null_repo_item_def)
qed

end
